theory Spec2Isabelle
  imports Main
begin

unbundle bit_operations_syntax

text \<open>
  A model of \<^verbatim>\<open>src/python/penlog.py\<close>: the class \<open>Logger\<close>, which writes each log event as one
  line of JSON to a stream, the default logger of the module with \<open>set_options\<close>, and the
  functions of the module that call the default logger. The state of the process is passed
  explicitly; a call returns \<open>Inl\<close> of the exception it raises or \<open>Inr\<close> of its result. The
  arguments of the logging operations are strings, as their annotations say.
\<close>

section \<open>Python values used by penlog\<close>

text \<open>
  A Python \<open>str\<close> is a sequence of Unicode code points, so it is modelled as a list of
  natural numbers (one per code point) and not as a list of 8-bit characters.
  \<open>py\<close> reads an ASCII literal of the source as such a list.
\<close>

type_synonym pystr = "nat list"

definition py :: "string \<Rightarrow> pystr" where
  "py s = map of_char s"

text \<open>
  \<^verbatim>\<open>class MessageType(str, Enum)\<close>: eight members, \<^verbatim>\<open>ERROR = "error"\<close> to
  \<^verbatim>\<open>PREAMBLE = "preamble"\<close>, each of them a \<open>str\<close> whose character data is the member's value.
\<close>

datatype MessageType = ERROR | WARNING | INFO | DEBUG | SUMMARY | READ | WRITE | PREAMBLE

fun MessageType_value :: "MessageType \<Rightarrow> pystr" where
  "MessageType_value ERROR = py ''error''"
| "MessageType_value WARNING = py ''warning''"
| "MessageType_value INFO = py ''info''"
| "MessageType_value DEBUG = py ''debug''"
| "MessageType_value SUMMARY = py ''summary''"
| "MessageType_value READ = py ''read''"
| "MessageType_value WRITE = py ''write''"
| "MessageType_value PREAMBLE = py ''preamble''"

text \<open>The values stored in a message dictionary: plain strings and \<open>MessageType\<close>
  members. Both are \<open>str\<close> objects; \<open>str_data\<close> is their character data.\<close>

datatype pyval = Str pystr | Member MessageType

fun str_data :: "pyval \<Rightarrow> pystr" where
  "str_data (Str s) = s"
| "str_data (Member t) = MessageType_value t"

text \<open>An omitted argument takes the default of the signature.\<close>

definition arg_or :: "'a option \<Rightarrow> 'a \<Rightarrow> 'a" where
  "arg_or a d = (case a of None \<Rightarrow> d | Some x \<Rightarrow> x)"

subsection \<open>Dictionaries\<close>

text \<open>
  A Python \<open>dict\<close> keeps its keys in insertion order, and \<open>json.dumps\<close> writes them in
  that order, so a dictionary is an association list. \<open>d[k] = v\<close> replaces the value of a
  key that is present, at its place, and appends a new key at the end.
\<close>

type_synonym dict = "(pystr \<times> pyval) list"

fun dict_setitem :: "dict \<Rightarrow> pystr \<Rightarrow> pyval \<Rightarrow> dict" where
  "dict_setitem [] k v = [(k, v)]"
| "dict_setitem ((k', v') # d) k v =
     (if k' = k then (k', v) # d else (k', v') # dict_setitem d k v)"

fun dict_get :: "dict \<Rightarrow> pystr \<Rightarrow> pyval option" where
  "dict_get [] k = None"
| "dict_get ((k', v') # d) k = (if k' = k then Some v' else dict_get d k)"

definition dict_keys :: "dict \<Rightarrow> pystr list" where
  "dict_keys d = map fst d"

text \<open>A display \<open>{k1: v1, k2: v2, ...}\<close> inserts its items from left to right.\<close>

definition dict_display :: "(pystr \<times> pyval) list \<Rightarrow> dict" where
  "dict_display kvs = foldl (\<lambda>d kv. dict_setitem d (fst kv) (snd kv)) [] kvs"

subsection \<open>The standard library: \<open>json.dumps\<close>\<close>

text \<open>
  \<open>json.dumps\<close> is called with its default options (\<open>ensure_ascii=True\<close>, separators
  \<open>', '\<close> and \<open>': '\<close>) on a dictionary whose keys and values are strings. The model
  follows \<open>json.encoder.py_encode_basestring_ascii\<close>: the pattern \<open>ESCAPE_ASCII\<close>
  \<^verbatim>\<open>([\\"]|[^\ -~])\<close> selects the code points to replace, \<open>ESCAPE_DCT\<close> holds the short
  escapes and the \<^verbatim>\<open>\u00XX\<close> escapes of the code points below 32, and every other selected
  code point is written as \<^verbatim>\<open>\uXXXX\<close>, as a surrogate pair from \<open>0x10000\<close> on.
\<close>

definition hexdigit :: "nat \<Rightarrow> nat" where
  \<comment> \<open>the digit \<open>d < 16\<close> in lower case: \<open>'0'\<close> is 48 and \<open>'a'\<close> is 97\<close>
  "hexdigit d = (if d < 10 then 48 + d else 87 + d)"

definition hex4 :: "nat \<Rightarrow> pystr" where
  \<comment> \<open>\<^verbatim>\<open>'{0:04x}'.format(n)\<close> for \<open>n < 0x10000\<close>, the only values it is applied to\<close>
  "hex4 n = [hexdigit (n div 4096 mod 16), hexdigit (n div 256 mod 16),
             hexdigit (n div 16 mod 16), hexdigit (n mod 16)]"

definition ESCAPE_ASCII :: "nat \<Rightarrow> bool" where
  \<comment> \<open>a backslash, a double quote, or a code point outside the range from space to tilde\<close>
  "ESCAPE_ASCII c \<longleftrightarrow> c = 92 \<or> c = 34 \<or> c < 32 \<or> 126 < c"

definition ESCAPE_DCT :: "nat \<Rightarrow> pystr option" where
  "ESCAPE_DCT c =
     (if c = 92 then Some [92, 92]
      else if c = 34 then Some [92, 34]
      else if c = 8 then Some [92, 98]
      else if c = 12 then Some [92, 102]
      else if c = 10 then Some [92, 110]
      else if c = 13 then Some [92, 114]
      else if c = 9 then Some [92, 116]
      else if c < 32 then Some ([92, 117] @ hex4 c)
      else None)"

definition replace :: "nat \<Rightarrow> pystr" where
  "replace c =
     (case ESCAPE_DCT c of
        Some r \<Rightarrow> r
      | None \<Rightarrow>
          if c < 0x10000 then [92, 117] @ hex4 c
          else
            let n = c - 0x10000;
                s1 = 0xd800 OR (drop_bit 10 n AND 0x3ff);
                s2 = 0xdc00 OR (n AND 0x3ff)
            in [92, 117] @ hex4 s1 @ [92, 117] @ hex4 s2)"

definition py_encode_basestring_ascii :: "pystr \<Rightarrow> pystr" where
  "py_encode_basestring_ascii s =
     [34] @ concat (map (\<lambda>c. if ESCAPE_ASCII c then replace c else [c]) s) @ [34]"

fun join :: "pystr \<Rightarrow> pystr list \<Rightarrow> pystr" where
  "join sep [] = []"
| "join sep [x] = x"
| "join sep (x # y # ys) = x @ sep @ join sep (y # ys)"

definition encode_item :: "pystr \<times> pyval \<Rightarrow> pystr" where
  "encode_item kv =
     py_encode_basestring_ascii (fst kv) @ py '': '' @ py_encode_basestring_ascii (str_data (snd kv))"

definition json_dumps :: "dict \<Rightarrow> pystr" where
  "json_dumps d = [123] @ join (py '', '') (map encode_item d) @ [125]"

subsection \<open>The standard library: \<open>datetime.now().isoformat()\<close>\<close>

record datetime =
  year :: nat
  month :: nat
  day :: nat
  hour :: nat
  minute :: nat
  second :: nat
  microsecond :: nat

fun digits :: "nat \<Rightarrow> pystr" where
  "digits n = (if n < 10 then [48 + n] else digits (n div 10) @ [48 + n mod 10])"

declare digits.simps [simp del]

definition fmt_d :: "nat \<Rightarrow> nat \<Rightarrow> pystr" where
  \<comment> \<open>\<^verbatim>\<open>'%0<width>d' % n\<close>\<close>
  "fmt_d width n = replicate (width - length (digits n)) 48 @ digits n"

definition isoformat :: "datetime \<Rightarrow> pystr" where
  \<comment> \<open>a naive datetime, separator \<open>T\<close>, \<open>timespec='auto'\<close>: the microseconds are
      written only when they are not zero\<close>
  "isoformat d =
     fmt_d 4 (year d) @ py ''-'' @ fmt_d 2 (month d) @ py ''-'' @ fmt_d 2 (day d) @ py ''T''
     @ fmt_d 2 (hour d) @ py '':'' @ fmt_d 2 (minute d) @ py '':'' @ fmt_d 2 (second d)
     @ (if microsecond d = 0 then [] else py ''.'' @ fmt_d 6 (microsecond d))"

text \<open>
  The fixed-width form \<^verbatim>\<open>YYYY-MM-DDTHH:MM:SS\<close>, followed by \<^verbatim>\<open>.ffffff\<close> when the microseconds
  are not zero: \<open>dec k n\<close> is the last \<open>k\<close> decimal digits of \<open>n\<close>. \<open>valid_datetime\<close> is the
  range of the fields of a \<open>datetime\<close> object.
\<close>

fun dec :: "nat \<Rightarrow> nat \<Rightarrow> pystr" where
  "dec 0 n = []"
| "dec (Suc k) n = dec k (n div 10) @ [48 + n mod 10]"

definition iso8601 :: "datetime \<Rightarrow> pystr" where
  "iso8601 d =
     dec 4 (year d) @ py ''-'' @ dec 2 (month d) @ py ''-'' @ dec 2 (day d) @ py ''T''
     @ dec 2 (hour d) @ py '':'' @ dec 2 (minute d) @ py '':'' @ dec 2 (second d)
     @ (if microsecond d = 0 then [] else py ''.'' @ dec 6 (microsecond d))"

definition valid_datetime :: "datetime \<Rightarrow> bool" where
  "valid_datetime d \<longleftrightarrow>
     1 \<le> year d \<and> year d \<le> 9999 \<and> 1 \<le> month d \<and> month d \<le> 12 \<and> 1 \<le> day d \<and> day d \<le> 31
     \<and> hour d \<le> 23 \<and> minute d \<le> 59 \<and> second d \<le> 59 \<and> microsecond d \<le> 999999"

section \<open>The process: objects, streams, host name and clock\<close>

datatype error =
    OSError          \<comment> \<open>\<open>socket.gethostname()\<close> fails, or the stream reports a write error\<close>
  | ValueError       \<comment> \<open>I/O operation on a closed file\<close>
  | NoSuchObject     \<comment> \<open>a reference to no object: cannot arise in Python, keeps the model total\<close>

text \<open>A text stream. What \<open>write\<close> hands over stays in \<open>buffered\<close> until a flush moves it to
  \<open>flushed\<close>; the stream's own buffering policy is left open.\<close>

record stream =
  closed :: bool
  failing :: bool
  buffered :: pystr
  flushed :: pystr

definition written :: "stream \<Rightarrow> pystr" where
  "written s = flushed s @ buffered s"

datatype textio = sys_stderr | sys_stdout | OpenedFile nat

text \<open>\<open>class Logger\<close>: the four attributes that \<open>__init__\<close> assigns. A stream is named by
  \<open>textio\<close>; \<open>sys_stderr\<close> is the object that \<open>sys.stderr\<close> held when the class was defined,
  which is the default of \<open>file_\<close>.\<close>

record Logger =
  host :: pystr
  component :: pystr
  flush :: bool
  "file" :: textio

text \<open>
  The state of the process: the \<open>Logger\<close> objects created so far (an object's identity is
  its index), the module global \<open>_logger\<close>, the streams, the host name the operating system
  reports (\<open>None\<close> when it cannot be resolved), and the clock as the sequence of the readings
  that successive calls of \<open>datetime.now()\<close> return.
\<close>

record world =
  objects :: "Logger list"
  module_logger :: nat
  streams :: "textio \<Rightarrow> stream"
  hostname :: "pystr option"
  clock :: "nat \<Rightarrow> datetime"
  ticks :: nat

definition deref :: "world \<Rightarrow> nat \<Rightarrow> Logger option" where
  "deref w a = (if a < length (objects w) then Some (objects w ! a) else None)"

definition socket_gethostname :: "world \<Rightarrow> error + pystr" where
  "socket_gethostname w = (case hostname w of None \<Rightarrow> Inl OSError | Some h \<Rightarrow> Inr h)"

definition datetime_now :: "world \<Rightarrow> datetime \<times> world" where
  "datetime_now w = (clock w (ticks w), w\<lparr>ticks := Suc (ticks w)\<rparr>)"

definition stream_print :: "stream \<Rightarrow> pystr \<Rightarrow> bool \<Rightarrow> stream" where
  \<comment> \<open>the text, then the line end, then the flush when it is asked for\<close>
  "stream_print s text fl =
     (let s = s\<lparr>buffered := buffered s @ text @ [10]\<rparr>
      in if fl then s\<lparr>flushed := flushed s @ buffered s, buffered := []\<rparr> else s)"

definition py_print :: "pystr \<Rightarrow> textio \<Rightarrow> bool \<Rightarrow> world \<Rightarrow> error + world" where
  \<comment> \<open>\<open>print(text, file=f, flush=fl)\<close>\<close>
  "py_print text f fl w =
     (let s = streams w f in
      if closed s then Inl ValueError
      else if failing s then Inl OSError
      else Inr (w\<lparr>streams := (streams w)(f := stream_print s text fl)\<rparr>))"

section \<open>\<open>class Logger\<close>\<close>

text \<open>
  A method takes \<open>self\<close> as the index of the object. A parameter with a default is an
  \<open>option\<close>, \<open>None\<close> when the caller leaves it out; a parameter whose name is taken in
  Isabelle carries a prime (\<open>component'\<close>, \<open>flush'\<close>, \<open>file'\<close> for \<open>file_\<close>, \<open>type'\<close> for
  \<open>type_\<close>).
  \<^verbatim>\<open>
  def __init__(self, component: str = "root", timefmt: str = '%c',
               flush: bool = False, file_: TextIO = sys.stderr):
      self.host = socket.gethostname()
      self.component = component
      self.flush = flush
      self.file = file_
  \<close>
  \<open>timefmt\<close> is received and not used.
\<close>

definition Logger_init ::
  "pystr option \<Rightarrow> pystr option \<Rightarrow> bool option \<Rightarrow> textio option \<Rightarrow> world \<Rightarrow> error + (nat \<times> world)" where
  "Logger_init component' timefmt flush' file' w =
     (let component' = arg_or component' (py ''root'');
          timefmt = arg_or timefmt (py ''%c'');
          flush' = arg_or flush' False;
          file' = arg_or file' sys_stderr
      in case socket_gethostname w of
           Inl e \<Rightarrow> Inl e
         | Inr h \<Rightarrow>
             let self = \<lparr>host = h, component = component', flush = flush', file = file'\<rparr>
             in Inr (length (objects w), w\<lparr>objects := objects w @ [self]\<rparr>))"

text \<open>
  \<^verbatim>\<open>
  def _log(self, msg: Dict) -> None:
      msg["component"] = self.component
      msg["host"] = self.host
      msg["timestamp"] = datetime.now().isoformat()
      print(json.dumps(msg), file=self.file, flush=self.flush)
  \<close>
  \<open>_log\<close> changes the dictionary it is given in place; the model returns the changed
  dictionary together with the new state.
\<close>

definition Logger_log :: "nat \<Rightarrow> dict \<Rightarrow> world \<Rightarrow> error + (dict \<times> world)" where
  "Logger_log self msg w =
     (case deref w self of
        None \<Rightarrow> Inl NoSuchObject
      | Some obj \<Rightarrow>
          let msg = dict_setitem msg (py ''component'') (Str (component obj));
              msg = dict_setitem msg (py ''host'') (Str (host obj));
              (now, w) = datetime_now w;
              msg = dict_setitem msg (py ''timestamp'') (Str (isoformat now))
          in (case py_print (json_dumps msg) (file obj) (flush obj) w of
                Inl e \<Rightarrow> Inl e
              | Inr w \<Rightarrow> Inr (msg, w)))"

definition returns_None :: "error + (dict \<times> world) \<Rightarrow> error + world" where
  \<comment> \<open>the caller's \<open>msg\<close> is a local variable, dropped when the method returns\<close>
  "returns_None r = (case r of Inl e \<Rightarrow> Inl e | Inr (msg, w) \<Rightarrow> Inr w)"

text \<open>
  \<^verbatim>\<open>
  def log_preamble(self, data: str) -> None:
      msg = {'host': self.host, 'type': MessageType.PREAMBLE, 'data': data}
      self._log(msg)

  def log_read(self, data: str, handle: str) -> None:
      msg = {'type': MessageType.READ, 'handle': handle, 'data': data}
      self._log(msg)

  def log_msg(self, data: str, type_: MessageType = MessageType.INFO) -> None:
      msg = {'type': type_, 'data': data}
      self._log(msg)

  def log_debug(self, data: str) -> None:
      self.log_msg(data, MessageType.DEBUG)
  \<close>
  \<open>log_write\<close> is \<open>log_read\<close> with \<open>MessageType.WRITE\<close>; \<open>log_info\<close>, \<open>log_warning\<close>,
  \<open>log_error\<close> and \<open>log_summary\<close> are \<open>log_debug\<close> with their own type.
\<close>

definition Logger_log_preamble :: "nat \<Rightarrow> pystr \<Rightarrow> world \<Rightarrow> error + world" where
  "Logger_log_preamble self data w =
     (case deref w self of
        None \<Rightarrow> Inl NoSuchObject
      | Some obj \<Rightarrow>
          let msg = dict_display
                [(py ''host'', Str (host obj)),
                 (py ''type'', Member PREAMBLE),
                 (py ''data'', Str data)]
          in returns_None (Logger_log self msg w))"

definition Logger_log_read :: "nat \<Rightarrow> pystr \<Rightarrow> pystr \<Rightarrow> world \<Rightarrow> error + world" where
  "Logger_log_read self data handle w =
     (let msg = dict_display
            [(py ''type'', Member READ),
             (py ''handle'', Str handle),
             (py ''data'', Str data)]
      in returns_None (Logger_log self msg w))"

definition Logger_log_write :: "nat \<Rightarrow> pystr \<Rightarrow> pystr \<Rightarrow> world \<Rightarrow> error + world" where
  "Logger_log_write self data handle w =
     (let msg = dict_display
            [(py ''type'', Member WRITE),
             (py ''handle'', Str handle),
             (py ''data'', Str data)]
      in returns_None (Logger_log self msg w))"

definition Logger_log_msg :: "nat \<Rightarrow> pystr \<Rightarrow> MessageType option \<Rightarrow> world \<Rightarrow> error + world" where
  "Logger_log_msg self data type' w =
     (let type' = arg_or type' INFO;
          msg = dict_display
            [(py ''type'', Member type'),
             (py ''data'', Str data)]
      in returns_None (Logger_log self msg w))"

definition Logger_log_debug :: "nat \<Rightarrow> pystr \<Rightarrow> world \<Rightarrow> error + world" where
  "Logger_log_debug self data w = Logger_log_msg self data (Some DEBUG) w"

definition Logger_log_info :: "nat \<Rightarrow> pystr \<Rightarrow> world \<Rightarrow> error + world" where
  "Logger_log_info self data w = Logger_log_msg self data (Some INFO) w"

definition Logger_log_warning :: "nat \<Rightarrow> pystr \<Rightarrow> world \<Rightarrow> error + world" where
  "Logger_log_warning self data w = Logger_log_msg self data (Some WARNING) w"

definition Logger_log_error :: "nat \<Rightarrow> pystr \<Rightarrow> world \<Rightarrow> error + world" where
  "Logger_log_error self data w = Logger_log_msg self data (Some ERROR) w"

definition Logger_log_summary :: "nat \<Rightarrow> pystr \<Rightarrow> world \<Rightarrow> error + world" where
  "Logger_log_summary self data w = Logger_log_msg self data (Some SUMMARY) w"

section \<open>The module level\<close>

text \<open>
  \<^verbatim>\<open>
  _logger = Logger()

  def set_options(component: str = 'root', timefmt: str = '%c') -> None:
      global _logger
      _logger = Logger(component=component, timefmt=timefmt)

  def log_preamble(data: str) -> None:
      _logger.log_preamble(data)

  def log_msg(data: str, type_: MessageType = MessageType.INFO) -> None:
      _logger.log_msg(data)

  def log_debug(data: str) -> None:
      log_msg(data, MessageType.DEBUG)
  \<close>
  The global \<open>_logger\<close> is the field \<open>module_logger\<close> of the state, and \<open>module_init\<close> is the
  assignment that runs when the module is imported. \<open>log_write\<close> and \<open>log_read\<close> call the
  method of their name like \<open>log_preamble\<close>; \<open>log_info\<close>, \<open>log_warning\<close>, \<open>log_error\<close> and
  \<open>log_summary\<close> call \<open>log_msg\<close> like \<open>log_debug\<close>.
\<close>

definition module_init :: "world \<Rightarrow> error + world" where
  "module_init w =
     (case Logger_init None None None None w of
        Inl e \<Rightarrow> Inl e
      | Inr (obj, w) \<Rightarrow> Inr (w\<lparr>module_logger := obj\<rparr>))"

definition set_options :: "pystr option \<Rightarrow> pystr option \<Rightarrow> world \<Rightarrow> error + world" where
  "set_options component' timefmt w =
     (let component' = arg_or component' (py ''root'');
          timefmt = arg_or timefmt (py ''%c'')
      in case Logger_init (Some component') (Some timefmt) None None w of
           Inl e \<Rightarrow> Inl e
         | Inr (obj, w) \<Rightarrow> Inr (w\<lparr>module_logger := obj\<rparr>))"

definition log_preamble :: "pystr \<Rightarrow> world \<Rightarrow> error + world" where
  "log_preamble data w = Logger_log_preamble (module_logger w) data w"

definition log_msg :: "pystr \<Rightarrow> MessageType option \<Rightarrow> world \<Rightarrow> error + world" where
  \<comment> \<open>the body is \<open>_logger.log_msg(data)\<close>: \<open>type_\<close> is not passed on\<close>
  "log_msg data type' w = Logger_log_msg (module_logger w) data None w"

definition log_write :: "pystr \<Rightarrow> pystr \<Rightarrow> world \<Rightarrow> error + world" where
  "log_write data handle w = Logger_log_write (module_logger w) data handle w"

definition log_read :: "pystr \<Rightarrow> pystr \<Rightarrow> world \<Rightarrow> error + world" where
  "log_read data handle w = Logger_log_read (module_logger w) data handle w"

definition log_debug :: "pystr \<Rightarrow> world \<Rightarrow> error + world" where
  "log_debug data w = log_msg data (Some DEBUG) w"

definition log_info :: "pystr \<Rightarrow> world \<Rightarrow> error + world" where
  "log_info data w = log_msg data (Some INFO) w"

definition log_warning :: "pystr \<Rightarrow> world \<Rightarrow> error + world" where
  "log_warning data w = log_msg data (Some WARNING) w"

definition log_error :: "pystr \<Rightarrow> world \<Rightarrow> error + world" where
  "log_error data w = log_msg data (Some ERROR) w"

definition log_summary :: "pystr \<Rightarrow> world \<Rightarrow> error + world" where
  "log_summary data w = log_msg data (Some SUMMARY) w"

section \<open>Callers and observations\<close>

text \<open>A stream that accepts a write.\<close>

definition writable :: "stream \<Rightarrow> bool" where
  "writable s \<longleftrightarrow> \<not> closed s \<and> \<not> failing s"

text \<open>
  \<open>appends op w f text\<close>: the operation \<open>op\<close>, run in the state \<open>w\<close>, returns normally, and
  what it adds to the stream \<open>f\<close> is exactly \<open>text\<close>. \<open>emits op w f rec\<close>: what it adds is
  exactly one line, the serialization of the record \<open>rec\<close>.
\<close>

definition appends :: "(world \<Rightarrow> error + world) \<Rightarrow> world \<Rightarrow> textio \<Rightarrow> pystr \<Rightarrow> bool" where
  "appends op w f text =
     (case op w of
        Inl e \<Rightarrow> False
      | Inr w' \<Rightarrow> written (streams w' f) = written (streams w f) @ text)"

definition emits :: "(world \<Rightarrow> error + world) \<Rightarrow> world \<Rightarrow> textio \<Rightarrow> dict \<Rightarrow> bool" where
  "emits op w f rec = appends op w f (json_dumps rec @ [10])"

text \<open>The state of one stream after a run, or the exception that ended the run.\<close>

definition stream_after :: "textio \<Rightarrow> error + world \<Rightarrow> error + stream" where
  "stream_after f r = (case r of Inl e \<Rightarrow> Inl e | Inr w \<Rightarrow> Inr (streams w f))"

text \<open>One call of a logging operation, as the method of an instance and as the function of
  the module, and a caller that makes a sequence of such calls and stops at the first
  exception.\<close>

datatype call =
    CallPreamble pystr
  | CallRead pystr pystr
  | CallWrite pystr pystr
  | CallMsg pystr "MessageType option"
  | CallDebug pystr
  | CallInfo pystr
  | CallWarning pystr
  | CallError pystr
  | CallSummary pystr

fun method_call :: "nat \<Rightarrow> call \<Rightarrow> world \<Rightarrow> error + world" where
  "method_call self (CallPreamble data) = Logger_log_preamble self data"
| "method_call self (CallRead data handle) = Logger_log_read self data handle"
| "method_call self (CallWrite data handle) = Logger_log_write self data handle"
| "method_call self (CallMsg data type') = Logger_log_msg self data type'"
| "method_call self (CallDebug data) = Logger_log_debug self data"
| "method_call self (CallInfo data) = Logger_log_info self data"
| "method_call self (CallWarning data) = Logger_log_warning self data"
| "method_call self (CallError data) = Logger_log_error self data"
| "method_call self (CallSummary data) = Logger_log_summary self data"

fun module_call :: "call \<Rightarrow> world \<Rightarrow> error + world" where
  "module_call (CallPreamble data) = log_preamble data"
| "module_call (CallRead data handle) = log_read data handle"
| "module_call (CallWrite data handle) = log_write data handle"
| "module_call (CallMsg data type') = log_msg data type'"
| "module_call (CallDebug data) = log_debug data"
| "module_call (CallInfo data) = log_info data"
| "module_call (CallWarning data) = log_warning data"
| "module_call (CallError data) = log_error data"
| "module_call (CallSummary data) = log_summary data"

fun run_calls :: "(call \<Rightarrow> world \<Rightarrow> error + world) \<Rightarrow> call list \<Rightarrow> world \<Rightarrow> error + world" where
  "run_calls step [] w = Inr w"
| "run_calls step (c # cs) w =
     (case step c w of Inl e \<Rightarrow> Inl e | Inr w' \<Rightarrow> run_calls step cs w')"

text \<open>The calls that name a resource: \<open>log_read\<close> and \<open>log_write\<close>.\<close>

fun has_handle :: "call \<Rightarrow> bool" where
  "has_handle (CallRead data handle) = True"
| "has_handle (CallWrite data handle) = True"
| "has_handle c = False"

text \<open>A text of printable ASCII characters, from space to tilde.\<close>

definition printable :: "pystr \<Rightarrow> bool" where
  "printable s = list_all (\<lambda>x. 32 \<le> x \<and> x \<le> 126) s"

text \<open>The dictionary that a method builds before it calls \<open>_log\<close>, and the dictionary that
  \<open>_log\<close> makes of it for the instance \<open>obj\<close> at the clock reading \<open>now\<close>.\<close>

fun built_msg :: "Logger \<Rightarrow> call \<Rightarrow> dict" where
  "built_msg obj (CallPreamble data) =
     [(py ''host'', Str (host obj)), (py ''type'', Member PREAMBLE), (py ''data'', Str data)]"
| "built_msg obj (CallRead data handle) =
     [(py ''type'', Member READ), (py ''handle'', Str handle), (py ''data'', Str data)]"
| "built_msg obj (CallWrite data handle) =
     [(py ''type'', Member WRITE), (py ''handle'', Str handle), (py ''data'', Str data)]"
| "built_msg obj (CallMsg data type') =
     [(py ''type'', Member (arg_or type' INFO)), (py ''data'', Str data)]"
| "built_msg obj (CallDebug data) = [(py ''type'', Member DEBUG), (py ''data'', Str data)]"
| "built_msg obj (CallInfo data) = [(py ''type'', Member INFO), (py ''data'', Str data)]"
| "built_msg obj (CallWarning data) = [(py ''type'', Member WARNING), (py ''data'', Str data)]"
| "built_msg obj (CallError data) = [(py ''type'', Member ERROR), (py ''data'', Str data)]"
| "built_msg obj (CallSummary data) = [(py ''type'', Member SUMMARY), (py ''data'', Str data)]"

text \<open>The method call that the function of the module makes on \<open>_logger\<close>: \<open>log_msg\<close>
  calls \<open>_logger.log_msg(data)\<close>, and the five wrappers call \<open>log_msg\<close>.\<close>

fun delegated :: "call \<Rightarrow> call" where
  "delegated (CallPreamble data) = CallPreamble data"
| "delegated (CallRead data handle) = CallRead data handle"
| "delegated (CallWrite data handle) = CallWrite data handle"
| "delegated (CallMsg data type') = CallMsg data None"
| "delegated (CallDebug data) = CallMsg data None"
| "delegated (CallInfo data) = CallMsg data None"
| "delegated (CallWarning data) = CallMsg data None"
| "delegated (CallError data) = CallMsg data None"
| "delegated (CallSummary data) = CallMsg data None"

definition injected :: "Logger \<Rightarrow> datetime \<Rightarrow> dict \<Rightarrow> dict" where
  "injected obj now msg =
     dict_setitem
       (dict_setitem
          (dict_setitem msg (py ''component'') (Str (component obj)))
          (py ''host'') (Str (host obj)))
       (py ''timestamp'') (Str (isoformat now))"

definition after_print :: "Logger \<Rightarrow> pystr \<Rightarrow> world \<Rightarrow> world" where
  "after_print obj text w =
     w\<lparr>ticks := Suc (ticks w),
       streams := (streams w)(file obj := stream_print (streams w (file obj)) text (flush obj))\<rparr>"

subsection \<open>A process to run the code in\<close>

text \<open>A machine called \<open>box\<close> whose streams are open and empty, and the state of the process
  once the module is imported there.\<close>

definition example_stream :: stream where
  "example_stream = \<lparr>closed = False, failing = False, buffered = [], flushed = []\<rparr>"

definition example_time :: datetime where
  "example_time =
     \<lparr>year = 2026, month = 11, day = 4, hour = 9, minute = 5, second = 7, microsecond = 0\<rparr>"

definition example_env :: world where
  "example_env =
     \<lparr>objects = [], module_logger = 0, streams = (\<lambda>f. example_stream),
      hostname = Some (py ''box''),
      clock = (\<lambda>n. example_time\<lparr>microsecond := 250 * n\<rparr>), ticks = 0\<rparr>"

definition example_logger :: Logger where
  "example_logger =
     \<lparr>host = py ''box'', component = py ''root'', flush = False, file = sys_stderr\<rparr>"

definition example_world :: world where
  "example_world = example_env\<lparr>objects := [example_logger]\<rparr>"

section \<open>Strings, dictionaries and the serialization\<close>

lemma key_simps [simp]:
  "py ''component'' \<noteq> py ''host''" "py ''component'' \<noteq> py ''timestamp''"
  "py ''component'' \<noteq> py ''type''" "py ''component'' \<noteq> py ''data''"
  "py ''component'' \<noteq> py ''handle''"
  "py ''host'' \<noteq> py ''component''" "py ''host'' \<noteq> py ''timestamp''"
  "py ''host'' \<noteq> py ''type''" "py ''host'' \<noteq> py ''data''" "py ''host'' \<noteq> py ''handle''"
  "py ''timestamp'' \<noteq> py ''component''" "py ''timestamp'' \<noteq> py ''host''"
  "py ''timestamp'' \<noteq> py ''type''" "py ''timestamp'' \<noteq> py ''data''"
  "py ''timestamp'' \<noteq> py ''handle''"
  "py ''type'' \<noteq> py ''component''" "py ''type'' \<noteq> py ''host''"
  "py ''type'' \<noteq> py ''timestamp''" "py ''type'' \<noteq> py ''data''" "py ''type'' \<noteq> py ''handle''"
  "py ''data'' \<noteq> py ''component''" "py ''data'' \<noteq> py ''host''"
  "py ''data'' \<noteq> py ''timestamp''" "py ''data'' \<noteq> py ''type''" "py ''data'' \<noteq> py ''handle''"
  "py ''handle'' \<noteq> py ''component''" "py ''handle'' \<noteq> py ''host''"
  "py ''handle'' \<noteq> py ''timestamp''" "py ''handle'' \<noteq> py ''type''"
  "py ''handle'' \<noteq> py ''data''"
  by (simp_all add: py_def)

lemma dict_get_setitem: "dict_get (dict_setitem d k v) k' = (if k' = k then Some v else dict_get d k')"
  by (induction d) auto

lemma dict_keys_setitem:
  "set (dict_keys (dict_setitem d k v)) = insert k (set (dict_keys d))"
proof (induction d)
  case Nil
  show ?case by (simp add: dict_keys_def)
next
  case (Cons kv d)
  then show ?case by (cases kv) (auto simp: dict_keys_def)
qed

lemma dict_keys_setitem_distinct:
  "distinct (dict_keys d) \<Longrightarrow> distinct (dict_keys (dict_setitem d k v))"
proof (induction d)
  case Nil
  then show ?case by (simp add: dict_keys_def)
next
  case (Cons kv d)
  have "fst ` set (dict_setitem d k v) = insert k (fst ` set d)"
    using dict_keys_setitem [of d k v] by (simp add: dict_keys_def)
  with Cons show ?case by (cases kv) (auto simp: dict_keys_def)
qed

lemma injected_component:
  "dict_get (injected obj now msg) (py ''component'') = Some (Str (component obj))"
  by (simp add: injected_def dict_get_setitem)

lemma injected_host: "dict_get (injected obj now msg) (py ''host'') = Some (Str (host obj))"
  by (simp add: injected_def dict_get_setitem)

lemma injected_timestamp:
  "dict_get (injected obj now msg) (py ''timestamp'') = Some (Str (isoformat now))"
  by (simp add: injected_def dict_get_setitem)

lemma injected_other:
  "k \<noteq> py ''component'' \<Longrightarrow> k \<noteq> py ''host'' \<Longrightarrow> k \<noteq> py ''timestamp''
   \<Longrightarrow> dict_get (injected obj now msg) k = dict_get msg k"
  by (simp add: injected_def dict_get_setitem)

lemma injected_keys:
  "set (dict_keys (injected obj now msg)) =
     {py ''component'', py ''host'', py ''timestamp''} \<union> set (dict_keys msg)"
  by (auto simp: injected_def dict_keys_setitem)

lemma injected_distinct: "distinct (dict_keys msg) \<Longrightarrow> distinct (dict_keys (injected obj now msg))"
  by (simp add: injected_def dict_keys_setitem_distinct)

subsection \<open>The serialization is printable ASCII\<close>

lemma printable_simps [simp]:
  "printable []" "printable (x # xs) \<longleftrightarrow> 32 \<le> x \<and> x \<le> 126 \<and> printable xs"
  "printable (xs @ ys) \<longleftrightarrow> printable xs \<and> printable ys"
  by (auto simp: printable_def)

lemma printable_no_newline: "printable s \<Longrightarrow> 10 \<notin> set s"
  by (auto simp: printable_def list_all_iff)

lemma hexdigit_range: "d < 16 \<Longrightarrow> 32 \<le> hexdigit d \<and> hexdigit d \<le> 126"
  by (simp add: hexdigit_def)

lemma hexdigit_printable: "32 \<le> hexdigit (n mod 16) \<and> hexdigit (n mod 16) \<le> 126"
  by (rule hexdigit_range) simp

lemma hex4_printable: "printable (hex4 n)"
  using hexdigit_printable [of "n div 4096"] hexdigit_printable [of "n div 256"]
    hexdigit_printable [of "n div 16"] hexdigit_printable [of n]
  by (simp add: hex4_def)

lemma replace_printable: "printable (replace c)"
  by (simp add: replace_def ESCAPE_DCT_def hex4_printable Let_def)

lemma encode_printable: "printable (py_encode_basestring_ascii s)"
proof -
  have "printable (concat (map (\<lambda>c. if ESCAPE_ASCII c then replace c else [c]) s))"
    by (induction s) (auto simp: replace_printable ESCAPE_ASCII_def)
  then show ?thesis by (simp add: py_encode_basestring_ascii_def)
qed

lemma join_printable:
  "printable sep \<Longrightarrow> list_all printable xs \<Longrightarrow> printable (join sep xs)"
  by (induction sep xs rule: join.induct) auto

lemma json_dumps_printable: "printable (json_dumps d)"
proof -
  have "list_all printable (map encode_item d)"
    by (induction d) (auto simp: encode_item_def encode_printable py_def)
  then have "printable (join (py '', '') (map encode_item d))"
    by (intro join_printable) (simp_all add: py_def)
  then show ?thesis by (simp add: json_dumps_def)
qed

subsection \<open>The timestamp has fixed width\<close>

lemma dec_zero: "dec k 0 = replicate k 48"
  by (induction k) (simp_all add: replicate_append_same)

lemma length_dec [simp]: "length (dec k n) = k"
  by (induction k arbitrary: n) simp_all

lemma length_digits_le: "n < 10 ^ k \<Longrightarrow> 0 < k \<Longrightarrow> length (digits n) \<le> k"
proof (induction k arbitrary: n)
  case 0
  then show ?case by simp
next
  case (Suc k)
  show ?case
  proof (cases "n < 10")
    case True
    then show ?thesis by (simp add: digits.simps)
  next
    case False
    then have "0 < k" using Suc.prems by (cases k) auto
    moreover have "n div 10 < 10 ^ k" using Suc.prems by (simp add: less_mult_imp_div_less mult.commute)
    ultimately have "length (digits (n div 10)) \<le> k" by (intro Suc.IH)
    with False show ?thesis by (subst digits.simps) simp
  qed
qed

lemma fmt_d_dec: "n < 10 ^ k \<Longrightarrow> 0 < k \<Longrightarrow> fmt_d k n = dec k n"
proof (induction k arbitrary: n)
  case 0
  then show ?case by simp
next
  case (Suc k)
  show ?case
  proof (cases "n < 10")
    case True
    then show ?thesis by (simp add: fmt_d_def digits.simps dec_zero)
  next
    case False
    then have k: "0 < k" using Suc.prems by (cases k) auto
    have lt: "n div 10 < 10 ^ k" using Suc.prems by (simp add: less_mult_imp_div_less mult.commute)
    have len: "length (digits (n div 10)) \<le> k" using lt k by (rule length_digits_le)
    have "fmt_d k (n div 10) = dec k (n div 10)" using lt k by (rule Suc.IH)
    moreover have "digits n = digits (n div 10) @ [48 + n mod 10]"
      using False by (subst digits.simps) simp
    ultimately show ?thesis using len by (simp add: fmt_d_def Suc_diff_le)
  qed
qed

lemma isoformat_iso8601:
  assumes "valid_datetime d"
  shows "isoformat d = iso8601 d"
proof -
  have "fmt_d 4 (year d) = dec 4 (year d)" "fmt_d 2 (month d) = dec 2 (month d)"
    "fmt_d 2 (day d) = dec 2 (day d)" "fmt_d 2 (hour d) = dec 2 (hour d)"
    "fmt_d 2 (minute d) = dec 2 (minute d)" "fmt_d 2 (second d) = dec 2 (second d)"
    "fmt_d 6 (microsecond d) = dec 6 (microsecond d)"
    using assms by (simp_all add: valid_datetime_def fmt_d_dec)
  then show ?thesis
    by (simp add: isoformat_def iso8601_def)
qed

lemma length_iso8601: "length (iso8601 d) = (if microsecond d = 0 then 19 else 26)"
  by (simp add: iso8601_def py_def)

section \<open>What one call does\<close>

lemma written_stream_print: "written (stream_print s text fl) = written s @ text @ [10]"
  by (simp add: written_def stream_print_def Let_def)

lemma writable_stream_print: "writable (stream_print s text fl) = writable s"
  by (simp add: writable_def stream_print_def Let_def)

lemma Logger_log_ok:
  assumes "deref w self = Some obj" and "writable (streams w (file obj))"
  shows "Logger_log self msg w =
     Inr (injected obj (clock w (ticks w)) msg,
          after_print obj (json_dumps (injected obj (clock w (ticks w)) msg)) w)"
  using assms
  by (simp add: Logger_log_def datetime_now_def py_print_def writable_def injected_def
      after_print_def Let_def)

lemma Logger_log_fails:
  assumes "deref w self = Some obj" and "\<not> writable (streams w (file obj))"
  shows "\<exists>e. Logger_log self msg w = Inl e"
  using assms
  by (auto simp: Logger_log_def datetime_now_def py_print_def writable_def Let_def)

lemma method_call_via_log:
  assumes "deref w self = Some obj"
  shows "method_call self c w = returns_None (Logger_log self (built_msg obj c) w)"
  using assms
  by (cases c)
     (simp_all add: Logger_log_preamble_def Logger_log_read_def Logger_log_write_def
        Logger_log_msg_def Logger_log_debug_def Logger_log_info_def Logger_log_warning_def
        Logger_log_error_def Logger_log_summary_def dict_display_def arg_or_def Let_def)

lemma method_call_ok:
  assumes "deref w self = Some obj" and "writable (streams w (file obj))"
  shows "method_call self c w =
     Inr (after_print obj (json_dumps (injected obj (clock w (ticks w)) (built_msg obj c))) w)"
  by (simp add: method_call_via_log [OF assms(1)] Logger_log_ok [OF assms] returns_None_def)

lemma emits_after_print:
  "op w = Inr (after_print obj (json_dumps rec) w) \<Longrightarrow> emits op w (file obj) rec"
  by (simp add: emits_def appends_def after_print_def written_stream_print)

lemma method_call_emits:
  assumes "deref w self = Some obj" and "writable (streams w (file obj))"
  shows "emits (method_call self c) w (file obj) (injected obj (clock w (ticks w)) (built_msg obj c))"
  by (rule emits_after_print) (rule method_call_ok [OF assms])

section \<open>The functions of the module\<close>

lemma module_call_delegates: "module_call c w = method_call (module_logger w) (delegated c) w"
  by (cases c)
     (simp_all add: log_preamble_def log_read_def log_write_def log_msg_def log_debug_def
        log_info_def log_warning_def log_error_def log_summary_def)

lemma module_call_emits:
  assumes "deref w (module_logger w) = Some obj" and "writable (streams w (file obj))"
  shows "emits (module_call c) w (file obj)
           (injected obj (clock w (ticks w)) (built_msg obj (delegated c)))"
  using method_call_emits [OF assms, of "delegated c"]
  by (simp add: emits_def appends_def module_call_delegates)

lemma emits_unique:
  "emits op w f rec \<Longrightarrow> emits op' w f rec' \<Longrightarrow> op w = op' w \<Longrightarrow> json_dumps rec = json_dumps rec'"
  by (auto simp: emits_def appends_def split: sum.splits)

section \<open>Construction, failure and sequences of calls\<close>

lemma Logger_init_ok:
  assumes "hostname w = Some h"
  shows "Logger_init c tf fl f w =
     Inr (length (objects w),
          w\<lparr>objects := objects w @
             [\<lparr>host = h, component = arg_or c (py ''root''), flush = arg_or fl False,
               file = arg_or f sys_stderr\<rparr>]\<rparr>)"
  using assms by (simp add: Logger_init_def socket_gethostname_def Let_def)

lemma Logger_init_fails:
  assumes "hostname w = None"
  shows "Logger_init c tf fl f w = Inl OSError"
  using assms by (simp add: Logger_init_def socket_gethostname_def Let_def)

lemma Logger_init_timefmt: "Logger_init c tf fl f w = Logger_init c tf' fl f w"
  by (simp add: Logger_init_def Let_def)

lemma set_options_ok:
  assumes "hostname w = Some h"
  shows "set_options c tf w =
     Inr (w\<lparr>objects := objects w @
             [\<lparr>host = h, component = arg_or c (py ''root''), flush = False, file = sys_stderr\<rparr>],
            module_logger := length (objects w)\<rparr>)"
  by (simp add: set_options_def Logger_init_ok [OF assms] arg_or_def Let_def)

lemma method_call_error:
  assumes "deref w self = Some obj" and "\<not> writable (streams w (file obj))"
  shows "method_call self c w =
     Inl (if closed (streams w (file obj)) then ValueError else OSError)"
  using assms
  by (auto simp: method_call_via_log [OF assms(1)] Logger_log_def datetime_now_def py_print_def
      writable_def returns_None_def Let_def)

lemma method_call_no_object:
  assumes "deref w self = None"
  shows "method_call self c w = Inl NoSuchObject"
  using assms
  by (cases c)
     (simp_all add: Logger_log_preamble_def Logger_log_read_def Logger_log_write_def
        Logger_log_msg_def Logger_log_debug_def Logger_log_info_def Logger_log_warning_def
        Logger_log_error_def Logger_log_summary_def Logger_log_def returns_None_def Let_def)

lemma method_call_returns:
  assumes "method_call self c w = Inr w'"
  obtains obj where "deref w self = Some obj" and "writable (streams w (file obj))"
    and "w' = after_print obj (json_dumps (injected obj (clock w (ticks w)) (built_msg obj c))) w"
proof (cases "deref w self")
  case None
  with assms show ?thesis by (simp add: method_call_no_object)
next
  case (Some obj)
  show ?thesis
  proof (cases "writable (streams w (file obj))")
    case True
    with Some assms that show ?thesis by (simp add: method_call_ok)
  next
    case False
    with Some assms show ?thesis by (simp add: method_call_error)
  qed
qed

lemma after_print_frame [simp]:
  "objects (after_print obj text w) = objects w"
  "module_logger (after_print obj text w) = module_logger w"
  "hostname (after_print obj text w) = hostname w"
  "clock (after_print obj text w) = clock w"
  "ticks (after_print obj text w) = Suc (ticks w)"
  "deref (after_print obj text w) a = deref w a"
  by (simp_all add: after_print_def deref_def)

lemma after_print_writable [simp]:
  "writable (streams (after_print obj text w) f) = writable (streams w f)"
  by (simp add: after_print_def writable_stream_print)

lemma after_print_stream:
  "streams (after_print obj text w) f =
     (if f = file obj then stream_print (streams w f) text (flush obj) else streams w f)"
  by (simp add: after_print_def)

lemma method_call_frame:
  assumes "method_call self c w = Inr w'"
  shows "objects w' = objects w \<and> module_logger w' = module_logger w \<and> hostname w' = hostname w
       \<and> clock w' = clock w"
  using assms by (rule method_call_returns) simp

lemma module_call_frame:
  assumes "module_call c w = Inr w'"
  shows "objects w' = objects w \<and> module_logger w' = module_logger w \<and> hostname w' = hostname w
       \<and> clock w' = clock w"
  using assms method_call_frame [of "module_logger w" "delegated c" w w']
  by (simp add: module_call_delegates)

lemma run_method_calls_frame:
  "run_calls (method_call self) cs w = Inr w' \<Longrightarrow>
     objects w' = objects w \<and> module_logger w' = module_logger w"
proof (induction cs arbitrary: w)
  case Nil
  then show ?case by simp
next
  case (Cons c cs)
  then obtain v where v: "method_call self c w = Inr v" and rest: "run_calls (method_call self) cs v = Inr w'"
    by (auto split: sum.splits)
  from Cons.IH [OF rest] method_call_frame [OF v] show ?case by simp
qed

lemma run_module_calls_frame:
  "run_calls module_call cs w = Inr w' \<Longrightarrow>
     objects w' = objects w \<and> module_logger w' = module_logger w"
proof (induction cs arbitrary: w)
  case Nil
  then show ?case by simp
next
  case (Cons c cs)
  then obtain v where v: "module_call c w = Inr v" and rest: "run_calls module_call cs v = Inr w'"
    by (auto split: sum.splits)
  from Cons.IH [OF rest] module_call_frame [OF v] show ?case by simp
qed

lemma run_method_calls_returns:
  "deref w self = Some obj \<Longrightarrow> writable (streams w (file obj)) \<Longrightarrow>
     \<exists>w'. run_calls (method_call self) cs w = Inr w'"
proof (induction cs arbitrary: w)
  case Nil
  show ?case by simp
next
  case (Cons c cs)
  let ?v = "after_print obj (json_dumps (injected obj (clock w (ticks w)) (built_msg obj c))) w"
  have step: "method_call self c w = Inr ?v"
    using Cons.prems by (rule method_call_ok)
  have "deref ?v self = Some obj" and "writable (streams ?v (file obj))"
    using Cons.prems by simp_all
  then have "\<exists>w'. run_calls (method_call self) cs ?v = Inr w'"
    by (rule Cons.IH)
  with step show ?case by simp
qed

lemma run_method_calls_same_output:
  "deref w1 a1 = Some obj \<Longrightarrow> deref w2 a2 = Some obj \<Longrightarrow> clock w1 = clock w2 \<Longrightarrow>
   ticks w1 = ticks w2 \<Longrightarrow> streams w1 (file obj) = streams w2 (file obj) \<Longrightarrow>
     stream_after (file obj) (run_calls (method_call a1) cs w1)
       = stream_after (file obj) (run_calls (method_call a2) cs w2)"
proof (induction cs arbitrary: w1 w2)
  case Nil
  then show ?case by (simp add: stream_after_def)
next
  case (Cons c cs)
  show ?case
  proof (cases "writable (streams w1 (file obj))")
    case False
    with Cons.prems show ?thesis
      by (simp add: method_call_error stream_after_def)
  next
    case True
    let ?text = "json_dumps (injected obj (clock w1 (ticks w1)) (built_msg obj c))"
    have s1: "method_call a1 c w1 = Inr (after_print obj ?text w1)"
      using Cons.prems True by (simp add: method_call_ok)
    have s2: "method_call a2 c w2 = Inr (after_print obj ?text w2)"
      using Cons.prems True by (simp add: method_call_ok)
    have "stream_after (file obj) (run_calls (method_call a1) cs (after_print obj ?text w1))
        = stream_after (file obj) (run_calls (method_call a2) cs (after_print obj ?text w2))"
      using Cons.prems by (intro Cons.IH) (simp_all add: after_print_stream)
    with s1 s2 show ?thesis by simp
  qed
qed

lemma Logger_init_returns:
  assumes "Logger_init c tf fl f w = Inr (a, v)"
  obtains h where "hostname w = Some h" and "a = length (objects w)"
    and "v = w\<lparr>objects := objects w @
             [\<lparr>host = h, component = arg_or c (py ''root''), flush = arg_or fl False,
               file = arg_or f sys_stderr\<rparr>]\<rparr>"
proof (cases "hostname w")
  case None
  with assms show ?thesis by (simp add: Logger_init_fails)
next
  case (Some h)
  with assms that show ?thesis by (simp add: Logger_init_ok)
qed

lemma set_options_timefmt: "set_options c tf w = set_options c tf' w"
  using Logger_init_timefmt [of "Some (arg_or c (py ''root''))" "Some (arg_or tf (py ''%c''))" None None w
      "Some (arg_or tf' (py ''%c''))"]
  by (simp add: set_options_def Let_def)

section \<open>The example process\<close>

lemmas example_defs =
  example_stream_def example_time_def example_env_def example_logger_def example_world_def

lemmas json_defs =
  json_dumps_def encode_item_def py_encode_basestring_ascii_def ESCAPE_ASCII_def replace_def
  ESCAPE_DCT_def hex4_def hexdigit_def

lemma module_init_example: "module_init example_env = Inr example_world"
  by (simp add: module_init_def Logger_init_def arg_or_def socket_gethostname_def example_defs)

lemma example_deref: "deref example_world 0 = Some example_logger"
  by (simp add: deref_def example_defs)

lemma example_module_logger: "module_logger example_world = 0"
  by (simp add: example_defs)

lemma example_file: "file example_logger = sys_stderr"
  by (simp add: example_defs)

lemma example_writable: "writable (streams example_world (file example_logger))"
  by (simp add: writable_def example_defs)

lemma example_now:
  "isoformat (clock example_world (ticks example_world)) = py ''2026-11-04T09:05:07''"
  by (simp add: isoformat_def fmt_d_def digits.simps example_defs py_def)

lemma example_method_call:
  "emits (method_call 0 c) example_world sys_stderr
     (dict_setitem (dict_setitem (dict_setitem (built_msg example_logger c)
        (py ''component'') (Str (py ''root''))) (py ''host'') (Str (py ''box'')))
        (py ''timestamp'') (Str (py ''2026-11-04T09:05:07'')))"
  using method_call_emits [OF example_deref example_writable, of c]
  by (simp add: injected_def example_now example_file) (simp add: example_logger_def)

lemma example_module_call:
  "emits (module_call c) example_world sys_stderr
     (dict_setitem (dict_setitem (dict_setitem (built_msg example_logger (delegated c))
        (py ''component'') (Str (py ''root''))) (py ''host'') (Str (py ''box'')))
        (py ''timestamp'') (Str (py ''2026-11-04T09:05:07'')))"
  using example_method_call [of "delegated c"]
  by (simp add: emits_def appends_def module_call_delegates example_module_logger)

lemma example_stderr_writable: "writable (streams example_world sys_stderr)"
  by (simp add: writable_def example_defs)


section \<open>The records of the methods\<close>

lemma Logger_log_msg_record:
  assumes "deref w self = Some obj" and "writable (streams w (file obj))"
  shows "emits (Logger_log_msg self D T) w (file obj)
           [(py ''type'', Member (arg_or T INFO)), (py ''data'', Str D),
            (py ''component'', Str (component obj)), (py ''host'', Str (host obj)),
            (py ''timestamp'', Str (isoformat (clock w (ticks w))))]"
  using method_call_emits [OF assms, of "CallMsg D T"]
  by (simp add: injected_def)

lemma Logger_wrapper_records:
  assumes "deref w self = Some obj" and "writable (streams w (file obj))"
  shows "emits (Logger_log_debug self D) w (file obj)
           (injected obj (clock w (ticks w)) [(py ''type'', Member DEBUG), (py ''data'', Str D)])"
    and "emits (Logger_log_info self D) w (file obj)
           (injected obj (clock w (ticks w)) [(py ''type'', Member INFO), (py ''data'', Str D)])"
    and "emits (Logger_log_warning self D) w (file obj)
           (injected obj (clock w (ticks w)) [(py ''type'', Member WARNING), (py ''data'', Str D)])"
    and "emits (Logger_log_error self D) w (file obj)
           (injected obj (clock w (ticks w)) [(py ''type'', Member ERROR), (py ''data'', Str D)])"
    and "emits (Logger_log_summary self D) w (file obj)
           (injected obj (clock w (ticks w)) [(py ''type'', Member SUMMARY), (py ''data'', Str D)])"
  using method_call_emits [OF assms, of "CallDebug D"] method_call_emits [OF assms, of "CallInfo D"]
    method_call_emits [OF assms, of "CallWarning D"] method_call_emits [OF assms, of "CallError D"]
    method_call_emits [OF assms, of "CallSummary D"]
  by simp_all

text \<open>\<open>log_msg\<close> of the module and its five wrappers emit a record of type \<open>info\<close>, whatever
  type they are given or named after.\<close>

lemma module_type_is_info:
  assumes "deref w (module_logger w) = Some obj" and "writable (streams w (file obj))"
  shows "emits (log_msg D T) w (file obj)
           (injected obj (clock w (ticks w)) [(py ''type'', Member INFO), (py ''data'', Str D)])"
    and "emits (log_debug D) w (file obj)
           (injected obj (clock w (ticks w)) [(py ''type'', Member INFO), (py ''data'', Str D)])"
    and "emits (log_info D) w (file obj)
           (injected obj (clock w (ticks w)) [(py ''type'', Member INFO), (py ''data'', Str D)])"
    and "emits (log_warning D) w (file obj)
           (injected obj (clock w (ticks w)) [(py ''type'', Member INFO), (py ''data'', Str D)])"
    and "emits (log_error D) w (file obj)
           (injected obj (clock w (ticks w)) [(py ''type'', Member INFO), (py ''data'', Str D)])"
    and "emits (log_summary D) w (file obj)
           (injected obj (clock w (ticks w)) [(py ''type'', Member INFO), (py ''data'', Str D)])"
  using module_call_emits [OF assms, of "CallMsg D T"] module_call_emits [OF assms, of "CallDebug D"]
    module_call_emits [OF assms, of "CallInfo D"] module_call_emits [OF assms, of "CallWarning D"]
    module_call_emits [OF assms, of "CallError D"] module_call_emits [OF assms, of "CallSummary D"]
  by (simp_all add: arg_or_def)

text \<open>The functions of the module that do what the method of the same name does.\<close>

lemma module_call_agrees:
  "log_preamble D w = Logger_log_preamble (module_logger w) D w"
  "log_read D H w = Logger_log_read (module_logger w) D H w"
  "log_write D H w = Logger_log_write (module_logger w) D H w"
  "log_info D w = Logger_log_info (module_logger w) D w"
  "log_msg D None w = Logger_log_msg (module_logger w) D None w"
  "log_msg D (Some INFO) w = Logger_log_msg (module_logger w) D (Some INFO) w"
  by (simp_all add: log_preamble_def log_read_def log_write_def log_info_def log_msg_def
      Logger_log_info_def Logger_log_msg_def arg_or_def)

section \<open>The claims\<close>

text \<open>
  Claim C1: every function of the module emits exactly the record that the method of the same
  name emits on the current default logger. This holds for \<open>log_preamble\<close>, \<open>log_read\<close>,
  \<open>log_write\<close>, \<open>log_info\<close> and \<open>log_msg\<close> with the type info or none (\<open>module_call_agrees\<close>),
  and fails for the others (\<open>module_type_is_info\<close>): \<open>log_msg\<close> calls
  \<open>_logger.log_msg(data)\<close> without its \<open>type_\<close>. In the example process the method
  \<open>log_debug("x")\<close> of the default logger emits a record of type \<open>debug\<close>, the function
  \<open>log_debug("x")\<close> emits one of type \<open>info\<close>, and the two calls end in different states.
\<close>

theorem module_log_debug_emits_info:
  "emits (Logger_log_debug (module_logger example_world) (py ''x'')) example_world sys_stderr
     [(py ''type'', Member DEBUG), (py ''data'', Str (py ''x'')),
      (py ''component'', Str (py ''root'')), (py ''host'', Str (py ''box'')),
      (py ''timestamp'', Str (py ''2026-11-04T09:05:07''))]
   \<and> emits (log_debug (py ''x'')) example_world sys_stderr
     [(py ''type'', Member INFO), (py ''data'', Str (py ''x'')),
      (py ''component'', Str (py ''root'')), (py ''host'', Str (py ''box'')),
      (py ''timestamp'', Str (py ''2026-11-04T09:05:07''))]
   \<and> log_debug (py ''x'') example_world
       \<noteq> Logger_log_debug (module_logger example_world) (py ''x'') example_world"
proof -
  let ?m = "[(py ''type'', Member DEBUG), (py ''data'', Str (py ''x'')),
      (py ''component'', Str (py ''root'')), (py ''host'', Str (py ''box'')),
      (py ''timestamp'', Str (py ''2026-11-04T09:05:07''))]"
  let ?f = "[(py ''type'', Member INFO), (py ''data'', Str (py ''x'')),
      (py ''component'', Str (py ''root'')), (py ''host'', Str (py ''box'')),
      (py ''timestamp'', Str (py ''2026-11-04T09:05:07''))]"
  have m: "emits (Logger_log_debug (module_logger example_world) (py ''x'')) example_world sys_stderr ?m"
    using example_method_call [of "CallDebug (py ''x'')"] by (simp add: example_module_logger)
  have f: "emits (log_debug (py ''x'')) example_world sys_stderr ?f"
    using example_module_call [of "CallDebug (py ''x'')"] by (simp add: arg_or_def)
  have "json_dumps ?f \<noteq> json_dumps ?m"
    by (simp add: json_defs py_def)
  with emits_unique [OF f m] have "log_debug (py ''x'') example_world
       \<noteq> Logger_log_debug (module_logger example_world) (py ''x'') example_world"
    by blast
  with m f show ?thesis by blast
qed

text \<open>
  Claim C2: for every payload \<open>D\<close>, \<open>logPreamble(D)\<close> emits a record whose keys are exactly
  \<open>type\<close>, \<open>data\<close>, \<open>host\<close> and \<open>timestamp\<close>, with no \<open>component\<close>. The code passes the
  preamble's dictionary through \<open>_log\<close> like every other, and \<open>_log\<close> sets \<open>component\<close>:
  in the example process the record that \<open>log_preamble("hi")\<close> emits has the key
  \<open>component\<close>, with the value \<open>root\<close>, and the line written says so.
\<close>

theorem log_preamble_has_component_example:
  "emits (Logger_log_preamble 0 (py ''hi'')) example_world sys_stderr
     [(py ''host'', Str (py ''box'')), (py ''type'', Member PREAMBLE), (py ''data'', Str (py ''hi'')),
      (py ''component'', Str (py ''root'')), (py ''timestamp'', Str (py ''2026-11-04T09:05:07''))]
   \<and> json_dumps
     [(py ''host'', Str (py ''box'')), (py ''type'', Member PREAMBLE), (py ''data'', Str (py ''hi'')),
      (py ''component'', Str (py ''root'')), (py ''timestamp'', Str (py ''2026-11-04T09:05:07''))]
     = py ''{\"host\": \"box\", \"type\": \"preamble\", \"data\": \"hi\", \"component\": \"root\", \"timestamp\": \"2026-11-04T09:05:07\"}''
   \<and> \<not> emits (Logger_log_preamble 0 (py ''hi'')) example_world sys_stderr
     [(py ''host'', Str (py ''box'')), (py ''type'', Member PREAMBLE), (py ''data'', Str (py ''hi'')),
      (py ''timestamp'', Str (py ''2026-11-04T09:05:07''))]"
proof -
  let ?with = "[(py ''host'', Str (py ''box'')), (py ''type'', Member PREAMBLE),
      (py ''data'', Str (py ''hi'')), (py ''component'', Str (py ''root'')),
      (py ''timestamp'', Str (py ''2026-11-04T09:05:07''))]"
  let ?without = "[(py ''host'', Str (py ''box'')), (py ''type'', Member PREAMBLE),
      (py ''data'', Str (py ''hi'')), (py ''timestamp'', Str (py ''2026-11-04T09:05:07''))]"
  have a: "emits (Logger_log_preamble 0 (py ''hi'')) example_world sys_stderr ?with"
    using example_method_call [of "CallPreamble (py ''hi'')"] by (simp add: example_logger_def)
  have b: "json_dumps ?with = py ''{\"host\": \"box\", \"type\": \"preamble\", \"data\": \"hi\", \"component\": \"root\", \"timestamp\": \"2026-11-04T09:05:07\"}''"
    by (simp add: json_defs py_def)
  have "json_dumps ?with \<noteq> json_dumps ?without"
    by (simp add: json_defs py_def)
  with emits_unique [OF a, of "Logger_log_preamble 0 (py ''hi'')" ?without]
  have c: "\<not> emits (Logger_log_preamble 0 (py ''hi'')) example_world sys_stderr ?without"
    by blast
  from a b c show ?thesis by blast
qed

text \<open>
  Claim C2, amended: for every payload \<open>D\<close>, \<open>logPreamble(D)\<close> on a logger whose sink accepts
  the write emits the record with the keys \<open>host\<close>, \<open>type\<close>, \<open>data\<close>, \<open>component\<close> and
  \<open>timestamp\<close>, in this order and each once, where \<open>type\<close> is \<open>preamble\<close>, \<open>data\<close> is \<open>D\<close>,
  \<open>host\<close> and \<open>component\<close> are the logger's, and \<open>timestamp\<close> is the clock reading in ISO
  format.
\<close>

theorem log_preamble_record:
  assumes "deref w self = Some obj" and "writable (streams w (file obj))"
  shows "emits (Logger_log_preamble self D) w (file obj)
           [(py ''host'', Str (host obj)), (py ''type'', Member PREAMBLE), (py ''data'', Str D),
            (py ''component'', Str (component obj)),
            (py ''timestamp'', Str (isoformat (clock w (ticks w))))]
       \<and> log_preamble D w = Logger_log_preamble (module_logger w) D w"
  using method_call_emits [OF assms, of "CallPreamble D"]
  by (simp add: injected_def log_preamble_def)

theorem log_preamble_record_witness:
  "deref example_world 0 = Some example_logger
   \<and> writable (streams example_world (file example_logger))
   \<and> emits (Logger_log_preamble 0 (py ''penlog 1.0'')) example_world sys_stderr
        [(py ''host'', Str (py ''box'')), (py ''type'', Member PREAMBLE),
         (py ''data'', Str (py ''penlog 1.0'')), (py ''component'', Str (py ''root'')),
         (py ''timestamp'', Str (py ''2026-11-04T09:05:07''))]"
  using log_preamble_record [OF example_deref example_writable, of "py ''penlog 1.0''"]
  by (simp add: example_deref example_stderr_writable example_now example_file)
     (simp add: example_logger_def)

text \<open>
  Claim C3: for every type \<open>T\<close> of error, warning, info, debug and summary and every payload
  \<open>D\<close>, \<open>logMessage(D, T)\<close> writes exactly one line whose JSON has \<open>type == T\<close> and
  \<open>data == D\<close>, and the type is info when the argument is omitted. The method
  \<open>Logger.log_msg\<close> does so (\<open>Logger_log_msg_record\<close>). The function \<open>log_msg\<close> of
  the module does not: in the example process \<open>log_msg("disk full", MessageType.ERROR)\<close>
  writes the line of a record of type \<open>info\<close>, and not the one of type \<open>error\<close>.
\<close>

theorem module_log_msg_drops_type:
  "emits (log_msg (py ''disk full'') (Some ERROR)) example_world sys_stderr
     [(py ''type'', Member INFO), (py ''data'', Str (py ''disk full'')),
      (py ''component'', Str (py ''root'')), (py ''host'', Str (py ''box'')),
      (py ''timestamp'', Str (py ''2026-11-04T09:05:07''))]
   \<and> json_dumps
     [(py ''type'', Member INFO), (py ''data'', Str (py ''disk full'')),
      (py ''component'', Str (py ''root'')), (py ''host'', Str (py ''box'')),
      (py ''timestamp'', Str (py ''2026-11-04T09:05:07''))]
     = py ''{\"type\": \"info\", \"data\": \"disk full\", \"component\": \"root\", \"host\": \"box\", \"timestamp\": \"2026-11-04T09:05:07\"}''
   \<and> \<not> emits (log_msg (py ''disk full'') (Some ERROR)) example_world sys_stderr
     [(py ''type'', Member ERROR), (py ''data'', Str (py ''disk full'')),
      (py ''component'', Str (py ''root'')), (py ''host'', Str (py ''box'')),
      (py ''timestamp'', Str (py ''2026-11-04T09:05:07''))]"
proof -
  let ?info = "[(py ''type'', Member INFO), (py ''data'', Str (py ''disk full'')),
      (py ''component'', Str (py ''root'')), (py ''host'', Str (py ''box'')),
      (py ''timestamp'', Str (py ''2026-11-04T09:05:07''))]"
  let ?error = "[(py ''type'', Member ERROR), (py ''data'', Str (py ''disk full'')),
      (py ''component'', Str (py ''root'')), (py ''host'', Str (py ''box'')),
      (py ''timestamp'', Str (py ''2026-11-04T09:05:07''))]"
  have a: "emits (log_msg (py ''disk full'') (Some ERROR)) example_world sys_stderr ?info"
    using example_module_call [of "CallMsg (py ''disk full'') (Some ERROR)"]
    by (simp add: arg_or_def)
  have b: "json_dumps ?info = py ''{\"type\": \"info\", \"data\": \"disk full\", \"component\": \"root\", \"host\": \"box\", \"timestamp\": \"2026-11-04T09:05:07\"}''"
    by (simp add: json_defs py_def)
  have "json_dumps ?info \<noteq> json_dumps ?error"
    by (simp add: json_defs py_def)
  with emits_unique [OF a, of "log_msg (py ''disk full'') (Some ERROR)" ?error]
  have c: "\<not> emits (log_msg (py ''disk full'') (Some ERROR)) example_world sys_stderr ?error"
    by blast
  from a b c show ?thesis by blast
qed

text \<open>
  Claim C4: every record emitted by any logging operation contains the keys \<open>type\<close>,
  \<open>data\<close>, \<open>component\<close>, \<open>host\<close> and \<open>timestamp\<close>, and every record emitted by \<open>logRead\<close> or
  \<open>logWrite\<close> also contains \<open>handle\<close>. The operation is any method call \<open>c\<close> on any logger
  whose sink accepts the write, or the function of the module of the same name; the record
  is the dictionary the method builds with the three fields that \<open>_log\<close> sets.
\<close>

theorem every_record_has_required_keys:
  assumes "deref w self = Some obj" and "writable (streams w (file obj))"
  shows "emits (method_call self c) w (file obj)
           (injected obj (clock w (ticks w)) (built_msg obj c))
       \<and> py ''type'' \<in> set (dict_keys (injected obj (clock w (ticks w)) (built_msg obj c)))
       \<and> py ''data'' \<in> set (dict_keys (injected obj (clock w (ticks w)) (built_msg obj c)))
       \<and> py ''component'' \<in> set (dict_keys (injected obj (clock w (ticks w)) (built_msg obj c)))
       \<and> py ''host'' \<in> set (dict_keys (injected obj (clock w (ticks w)) (built_msg obj c)))
       \<and> py ''timestamp'' \<in> set (dict_keys (injected obj (clock w (ticks w)) (built_msg obj c)))
       \<and> (has_handle c \<longrightarrow>
            py ''handle'' \<in> set (dict_keys (injected obj (clock w (ticks w)) (built_msg obj c))))
       \<and> (self = module_logger w \<longrightarrow>
            emits (module_call c) w (file obj)
              (injected obj (clock w (ticks w)) (built_msg obj (delegated c)))
            \<and> {py ''type'', py ''data'', py ''component'', py ''host'', py ''timestamp''}
                \<subseteq> set (dict_keys (injected obj (clock w (ticks w)) (built_msg obj (delegated c))))
            \<and> (has_handle c \<longrightarrow>
                 py ''handle''
                   \<in> set (dict_keys (injected obj (clock w (ticks w)) (built_msg obj (delegated c))))))"
proof -
  have keys: "py ''type'' \<in> set (dict_keys (built_msg obj k))
      \<and> py ''data'' \<in> set (dict_keys (built_msg obj k))
      \<and> (has_handle k \<longrightarrow> py ''handle'' \<in> set (dict_keys (built_msg obj k)))" for k
    by (cases k) (simp_all add: dict_keys_def)
  have handle: "has_handle (delegated c) = has_handle c"
    by (cases c) simp_all
  have direct: "emits (method_call self c) w (file obj)
      (injected obj (clock w (ticks w)) (built_msg obj c))"
    by (rule method_call_emits [OF assms])
  have module: "emits (module_call c) w (file obj)
      (injected obj (clock w (ticks w)) (built_msg obj (delegated c)))"
    if "self = module_logger w"
    using that assms by (simp add: module_call_emits)
  show ?thesis
    using direct module keys [of c] keys [of "delegated c"] handle
    by (simp add: injected_keys)
qed

theorem every_record_has_required_keys_witness:
  "deref example_world 0 = Some example_logger
   \<and> writable (streams example_world (file example_logger))
   \<and> has_handle (CallRead (py ''4096 bytes'') (py ''/dev/sda1''))
   \<and> 0 = module_logger example_world
   \<and> emits (log_read (py ''4096 bytes'') (py ''/dev/sda1'')) example_world sys_stderr
        [(py ''type'', Member READ), (py ''handle'', Str (py ''/dev/sda1'')),
         (py ''data'', Str (py ''4096 bytes'')), (py ''component'', Str (py ''root'')),
         (py ''host'', Str (py ''box'')), (py ''timestamp'', Str (py ''2026-11-04T09:05:07''))]
   \<and> dict_keys
        [(py ''type'', Member READ), (py ''handle'', Str (py ''/dev/sda1'')),
         (py ''data'', Str (py ''4096 bytes'')), (py ''component'', Str (py ''root'')),
         (py ''host'', Str (py ''box'')), (py ''timestamp'', Str (py ''2026-11-04T09:05:07''))]
      = [py ''type'', py ''handle'', py ''data'', py ''component'', py ''host'', py ''timestamp'']"
  using every_record_has_required_keys [OF example_deref example_writable,
      of "CallRead (py ''4096 bytes'') (py ''/dev/sda1'')"]
  by (simp add: example_deref example_stderr_writable example_now example_file
        example_module_logger injected_def dict_keys_def)
     (simp add: example_logger_def)

text \<open>
  Claim C5: in the record that an emission serializes, \<open>component\<close>, \<open>host\<close> and \<open>timestamp\<close>
  are the values that the logger injects at emission time, whatever the dictionary held under
  these keys before: \<open>_log\<close>, given any dictionary \<open>msg\<close>, emits the record \<open>injected\<close> of it,
  in which the three keys have the logger's component, the logger's host and the clock
  reading, and each key of the record occurs once when each key of \<open>msg\<close> did. Every method
  call \<open>c\<close> emits the record \<open>injected\<close> of the dictionary it builds; for \<open>log_preamble\<close>
  that dictionary already has a \<open>host\<close> entry, which is replaced at its place.
\<close>

theorem injected_fields_take_precedence:
  assumes "deref w self = Some obj" and "writable (streams w (file obj))"
  shows "emits (\<lambda>u. returns_None (Logger_log self msg u)) w (file obj)
           (injected obj (clock w (ticks w)) msg)
       \<and> dict_get (injected obj (clock w (ticks w)) msg) (py ''component'')
           = Some (Str (component obj))
       \<and> dict_get (injected obj (clock w (ticks w)) msg) (py ''host'') = Some (Str (host obj))
       \<and> dict_get (injected obj (clock w (ticks w)) msg) (py ''timestamp'')
           = Some (Str (isoformat (clock w (ticks w))))
       \<and> (distinct (dict_keys msg) \<longrightarrow> distinct (dict_keys (injected obj (clock w (ticks w)) msg)))
       \<and> emits (method_call self c) w (file obj)
           (injected obj (clock w (ticks w)) (built_msg obj c))
       \<and> (self = module_logger w \<longrightarrow>
            emits (module_call c) w (file obj)
              (injected obj (clock w (ticks w)) (built_msg obj (delegated c))))
       \<and> dict_keys (injected obj (clock w (ticks w)) (built_msg obj (CallPreamble D)))
           = [py ''host'', py ''type'', py ''data'', py ''component'', py ''timestamp'']"
proof -
  have log: "emits (\<lambda>u. returns_None (Logger_log self msg u)) w (file obj)
      (injected obj (clock w (ticks w)) msg)"
    by (rule emits_after_print) (simp add: Logger_log_ok [OF assms] returns_None_def)
  have module: "emits (module_call c) w (file obj)
      (injected obj (clock w (ticks w)) (built_msg obj (delegated c)))"
    if "self = module_logger w"
    using that assms by (simp add: module_call_emits)
  have preamble: "dict_keys (injected obj (clock w (ticks w)) (built_msg obj (CallPreamble D)))
      = [py ''host'', py ''type'', py ''data'', py ''component'', py ''timestamp'']"
    by (simp add: injected_def dict_keys_def)
  show ?thesis
    using log module preamble method_call_emits [OF assms, of c]
    by (simp add: injected_component injected_host injected_timestamp injected_distinct)
qed

theorem injected_fields_take_precedence_witness:
  "deref example_world 0 = Some example_logger
   \<and> writable (streams example_world (file example_logger))
   \<and> distinct (dict_keys [(py ''host'', Str (py ''elsewhere'')), (py ''data'', Str (py ''x''))])
   \<and> 0 = module_logger example_world
   \<and> emits (\<lambda>u. returns_None
          (Logger_log 0 [(py ''host'', Str (py ''elsewhere'')), (py ''data'', Str (py ''x''))] u))
        example_world sys_stderr
        [(py ''host'', Str (py ''box'')), (py ''data'', Str (py ''x'')),
         (py ''component'', Str (py ''root'')), (py ''timestamp'', Str (py ''2026-11-04T09:05:07''))]
   \<and> emits (log_preamble (py ''hi'')) example_world sys_stderr
        [(py ''host'', Str (py ''box'')), (py ''type'', Member PREAMBLE),
         (py ''data'', Str (py ''hi'')), (py ''component'', Str (py ''root'')),
         (py ''timestamp'', Str (py ''2026-11-04T09:05:07''))]"
  using injected_fields_take_precedence [OF example_deref example_writable,
      of "[(py ''host'', Str (py ''elsewhere'')), (py ''data'', Str (py ''x''))]"
         "CallPreamble (py ''hi'')"]
  by (simp add: example_deref example_stderr_writable example_now example_file
        example_module_logger injected_def dict_keys_def)
     (simp add: example_logger_def)

text \<open>
  Claim C6: for every payload \<open>D\<close> and handle \<open>H\<close>, \<open>logRead(D, H)\<close> emits a record with
  \<open>type == read\<close>, \<open>data == D\<close> and \<open>handle == H\<close>, and \<open>logWrite(D, H)\<close> one with
  \<open>type == write\<close>, \<open>data == D\<close> and \<open>handle == H\<close>. The records are given in full; the
  functions of the module are the methods of the default logger.
\<close>

theorem log_read_write_record:
  assumes "deref w self = Some obj" and "writable (streams w (file obj))"
  shows "emits (Logger_log_read self D H) w (file obj)
           [(py ''type'', Member READ), (py ''handle'', Str H), (py ''data'', Str D),
            (py ''component'', Str (component obj)), (py ''host'', Str (host obj)),
            (py ''timestamp'', Str (isoformat (clock w (ticks w))))]
       \<and> emits (Logger_log_write self D H) w (file obj)
           [(py ''type'', Member WRITE), (py ''handle'', Str H), (py ''data'', Str D),
            (py ''component'', Str (component obj)), (py ''host'', Str (host obj)),
            (py ''timestamp'', Str (isoformat (clock w (ticks w))))]
       \<and> log_read D H w = Logger_log_read (module_logger w) D H w
       \<and> log_write D H w = Logger_log_write (module_logger w) D H w"
  using method_call_emits [OF assms, of "CallRead D H"]
    method_call_emits [OF assms, of "CallWrite D H"]
  by (simp add: injected_def log_read_def log_write_def)

theorem log_read_write_record_witness:
  "deref example_world 0 = Some example_logger
   \<and> writable (streams example_world (file example_logger))
   \<and> emits (Logger_log_read 0 (py ''4096 bytes'') (py ''/dev/sda1'')) example_world sys_stderr
        [(py ''type'', Member READ), (py ''handle'', Str (py ''/dev/sda1'')),
         (py ''data'', Str (py ''4096 bytes'')), (py ''component'', Str (py ''root'')),
         (py ''host'', Str (py ''box'')), (py ''timestamp'', Str (py ''2026-11-04T09:05:07''))]
   \<and> emits (Logger_log_write 0 (py ''4096 bytes'') (py ''/dev/sda1'')) example_world sys_stderr
        [(py ''type'', Member WRITE), (py ''handle'', Str (py ''/dev/sda1'')),
         (py ''data'', Str (py ''4096 bytes'')), (py ''component'', Str (py ''root'')),
         (py ''host'', Str (py ''box'')), (py ''timestamp'', Str (py ''2026-11-04T09:05:07''))]"
  using log_read_write_record [OF example_deref example_writable, of "py ''4096 bytes''" "py ''/dev/sda1''"]
  by (simp add: example_deref example_stderr_writable example_now example_file)
     (simp add: example_logger_def)

text \<open>
  Claim C7: \<open>set_options\<close> replaces the default logger of the process by a newly constructed
  instance whose component is the supplied name (\<open>root\<close> when none is supplied), whose flush
  policy is disabled and whose sink is standard error. The call writes nothing, so the
  records already written stay as they are, and it leaves every older instance as it was.
  After the call every function of the module emits a record with the new component, and
  a method called on an instance held from before emits one with that instance's own
  component.
\<close>

theorem set_options_replaces_default:
  assumes "hostname w = Some h" and "writable (streams w sys_stderr)"
  shows "\<exists>w'. set_options name timefmt w = Inr w'
     \<and> module_logger w' = length (objects w)
     \<and> deref w (module_logger w') = None
     \<and> deref w' (module_logger w') =
         Some \<lparr>host = h, component = arg_or name (py ''root''), flush = False, file = sys_stderr\<rparr>
     \<and> streams w' = streams w
     \<and> (\<forall>a obj. deref w a = Some obj \<longrightarrow> deref w' a = Some obj)
     \<and> (\<forall>c. \<exists>rec. emits (module_call c) w' sys_stderr rec
            \<and> dict_get rec (py ''component'') = Some (Str (arg_or name (py ''root''))))
     \<and> (\<forall>a obj c. deref w a = Some obj \<and> writable (streams w (file obj)) \<longrightarrow>
            (\<exists>rec. emits (method_call a c) w' (file obj) rec
               \<and> dict_get rec (py ''component'') = Some (Str (component obj))))"
proof -
  let ?new = "\<lparr>host = h, component = arg_or name (py ''root''), flush = False, file = sys_stderr\<rparr>"
  let ?w' = "w\<lparr>objects := objects w @ [?new], module_logger := length (objects w)\<rparr>"
  have run: "set_options name timefmt w = Inr ?w'"
    by (rule set_options_ok [OF assms(1)])
  have new: "deref ?w' (module_logger ?w') = Some ?new"
    by (simp add: deref_def)
  have old: "deref ?w' a = Some obj" if "deref w a = Some obj" for a obj
    using that by (auto simp: deref_def nth_append split: if_splits)
  have "emits (module_call c) ?w' (file ?new)
      (injected ?new (clock ?w' (ticks ?w')) (built_msg ?new (delegated c)))" for c
    using new assms(2) by (intro module_call_emits) simp_all
  then have default: "\<exists>rec. emits (module_call c) ?w' sys_stderr rec
      \<and> dict_get rec (py ''component'') = Some (Str (arg_or name (py ''root'')))" for c
    using injected_component [of ?new] by (metis Logger.select_convs(2,4))
  have held: "\<exists>rec. emits (method_call a c) ?w' (file obj) rec
      \<and> dict_get rec (py ''component'') = Some (Str (component obj))"
    if "deref w a = Some obj" and "writable (streams w (file obj))" for a obj c
  proof -
    have "emits (method_call a c) ?w' (file obj)
        (injected obj (clock ?w' (ticks ?w')) (built_msg obj c))"
      using old [OF that(1)] that(2) by (intro method_call_emits) simp_all
    then show ?thesis using injected_component by blast
  qed
  have fresh: "deref w (module_logger ?w') = None"
    by (simp add: deref_def)
  have "module_logger ?w' = length (objects w)" and "streams ?w' = streams w"
    by simp_all
  with run new old default held fresh show ?thesis
    by (intro exI [of _ ?w']) blast
qed

theorem set_options_replaces_default_witness:
  "hostname example_world = Some (py ''box'')
   \<and> writable (streams example_world sys_stderr)
   \<and> deref example_world 0 = Some example_logger
   \<and> (\<exists>w'. set_options (Some (py ''fsck'')) None example_world = Inr w'
        \<and> module_logger w' = 1
        \<and> deref w' 1 =
            Some \<lparr>host = py ''box'', component = py ''fsck'', flush = False, file = sys_stderr\<rparr>
        \<and> streams w' = streams example_world
        \<and> deref w' 0 = Some example_logger
        \<and> (\<exists>rec. emits (log_error (py ''disk full'')) w' sys_stderr rec
              \<and> dict_get rec (py ''component'') = Some (Str (py ''fsck'')))
        \<and> (\<exists>rec. emits (Logger_log_error 0 (py ''disk full'')) w' sys_stderr rec
              \<and> dict_get rec (py ''component'') = Some (Str (py ''root''))))"
proof -
  have h: "hostname example_world = Some (py ''box'')"
    by (simp add: example_defs)
  obtain w' where run: "set_options (Some (py ''fsck'')) None example_world = Inr w'"
    and new: "module_logger w' = length (objects example_world)"
      "deref w' (module_logger w') =
         Some \<lparr>host = py ''box'', component = arg_or (Some (py ''fsck'')) (py ''root''),
               flush = False, file = sys_stderr\<rparr>"
      "streams w' = streams example_world"
    and old: "\<forall>a obj. deref example_world a = Some obj \<longrightarrow> deref w' a = Some obj"
    and default: "\<forall>c. \<exists>rec. emits (module_call c) w' sys_stderr rec
            \<and> dict_get rec (py ''component'') = Some (Str (arg_or (Some (py ''fsck'')) (py ''root'')))"
    and held: "\<forall>a obj c. deref example_world a = Some obj \<and> writable (streams example_world (file obj)) \<longrightarrow>
            (\<exists>rec. emits (method_call a c) w' (file obj) rec
               \<and> dict_get rec (py ''component'') = Some (Str (component obj)))"
    using set_options_replaces_default [OF h example_stderr_writable, of "Some (py ''fsck'')" None]
    by blast
  have one: "module_logger w' = 1"
    using new(1) by (simp add: example_defs)
  have a: "deref w' 1 = Some \<lparr>host = py ''box'', component = py ''fsck'', flush = False, file = sys_stderr\<rparr>"
    using new(2) one by (simp add: arg_or_def)
  have b: "deref w' 0 = Some example_logger"
    using old example_deref by blast
  have c: "\<exists>rec. emits (log_error (py ''disk full'')) w' sys_stderr rec
              \<and> dict_get rec (py ''component'') = Some (Str (py ''fsck''))"
    using default [rule_format, of "CallError (py ''disk full'')"] by (simp add: arg_or_def)
  have d: "\<exists>rec. emits (Logger_log_error 0 (py ''disk full'')) w' sys_stderr rec
              \<and> dict_get rec (py ''component'') = Some (Str (py ''root''))"
    using held [rule_format, of 0 example_logger "CallError (py ''disk full'')"]
      example_deref example_writable
    by (simp add: example_file) (simp add: example_logger_def)
  from h example_stderr_writable example_deref run one a new(3) b c d show ?thesis
    by blast
qed

text \<open>
  Claim C8: a logger's host is set once, at construction, to the host name resolved then, and
  no emission changes it or any other field of any logger: a sequence of method calls, or of
  calls of the functions of the module, that returns leaves every \<open>Logger\<close> object as it was,
  and on a logger whose sink accepts writes every sequence of method calls returns, with
  the logger in its state at construction.
\<close>

theorem emission_never_changes_a_logger:
  assumes "hostname w0 = Some h"
  shows "\<exists>self w1. Logger_init c tf fl f w0 = Inr (self, w1)
     \<and> deref w1 self =
         Some \<lparr>host = h, component = arg_or c (py ''root''), flush = arg_or fl False,
               file = arg_or f sys_stderr\<rparr>
     \<and> (\<forall>a w cs w'. run_calls (method_call a) cs w = Inr w' \<longrightarrow>
            objects w' = objects w \<and> deref w' self = deref w self)
     \<and> (\<forall>w cs w'. run_calls module_call cs w = Inr w' \<longrightarrow>
            objects w' = objects w \<and> deref w' self = deref w self)
     \<and> (\<forall>w cs. deref w self = deref w1 self \<and> writable (streams w (arg_or f sys_stderr)) \<longrightarrow>
            (\<exists>w'. run_calls (method_call self) cs w = Inr w' \<and> deref w' self = deref w1 self))"
proof -
  let ?obj = "\<lparr>host = h, component = arg_or c (py ''root''), flush = arg_or fl False,
               file = arg_or f sys_stderr\<rparr>"
  let ?self = "length (objects w0)"
  let ?w1 = "w0\<lparr>objects := objects w0 @ [?obj]\<rparr>"
  have init: "Logger_init c tf fl f w0 = Inr (?self, ?w1)"
    by (rule Logger_init_ok [OF assms])
  have made: "deref ?w1 ?self = Some ?obj"
    by (simp add: deref_def)
  have frame: "objects w' = objects w \<and> deref w' ?self = deref w ?self"
    if "run_calls (method_call a) cs w = Inr w'" for a w cs w'
    using run_method_calls_frame [OF that] by (simp add: deref_def)
  have frame': "objects w' = objects w \<and> deref w' ?self = deref w ?self"
    if "run_calls module_call cs w = Inr w'" for w cs w'
    using run_module_calls_frame [OF that] by (simp add: deref_def)
  have returns: "\<exists>w'. run_calls (method_call ?self) cs w = Inr w' \<and> deref w' ?self = deref ?w1 ?self"
    if "deref w ?self = deref ?w1 ?self" and "writable (streams w (arg_or f sys_stderr))" for w cs
  proof -
    have "deref w ?self = Some ?obj"
      using that(1) made by simp
    moreover have "writable (streams w (file ?obj))"
      using that(2) by simp
    ultimately obtain w' where "run_calls (method_call ?self) cs w = Inr w'"
      using run_method_calls_returns by blast
    with frame [OF this] that(1) show ?thesis by simp
  qed
  from init made frame frame' returns show ?thesis
    by (intro exI [of _ ?self] exI [of _ ?w1]) blast
qed

theorem emission_never_changes_a_logger_witness:
  "hostname example_env = Some (py ''box'')
   \<and> (\<exists>w'. run_calls (method_call 0)
          [CallPreamble (py ''hi''), CallError (py ''disk full''), CallRead [10] (py ''/dev/sda1'')]
          example_world = Inr w'
        \<and> objects w' = [example_logger])"
proof -
  have h: "hostname example_env = Some (py ''box'')"
    by (simp add: example_defs)
  obtain self w1 where init: "Logger_init None None None None example_env = Inr (self, w1)"
    and made: "deref w1 self =
         Some \<lparr>host = py ''box'', component = arg_or None (py ''root''), flush = arg_or None False,
               file = arg_or None sys_stderr\<rparr>"
    and frame: "\<forall>a w cs w'. run_calls (method_call a) cs w = Inr w' \<longrightarrow>
            objects w' = objects w \<and> deref w' self = deref w self"
    and returns: "\<forall>w cs. deref w self = deref w1 self \<and> writable (streams w (arg_or None sys_stderr)) \<longrightarrow>
            (\<exists>w'. run_calls (method_call self) cs w = Inr w' \<and> deref w' self = deref w1 self)"
    using emission_never_changes_a_logger [OF h, of None None None None] by blast
  from init have self: "self = 0" and w1: "w1 = example_world"
    by (simp_all add: Logger_init_def socket_gethostname_def arg_or_def example_defs)
  have "writable (streams example_world (arg_or None sys_stderr))"
    using example_stderr_writable by (simp add: arg_or_def)
  with returns self w1 obtain w' where run: "run_calls (method_call 0)
          [CallPreamble (py ''hi''), CallError (py ''disk full''), CallRead [10] (py ''/dev/sda1'')]
          example_world = Inr w'"
    by blast
  with frame have "objects w' = objects example_world"
    by blast
  then have "objects w' = [example_logger]"
    by (simp add: example_defs)
  with h run show ?thesis by blast
qed

text \<open>
  Claim C9: the time format has no observable effect. \<open>Logger.__init__\<close> and \<open>set_options\<close>
  give the same result for any two time formats. Two loggers constructed with different
  time formats and otherwise the same arguments, in two processes with the same host name,
  the same clock and the same state of the sink, are equal objects, and the same sequence of
  calls on them leaves the sink in the same state (or ends with the same exception). The
  timestamp of every record is \<open>isoformat\<close> of the clock reading, whatever the time format,
  and for a clock reading in the range of \<open>datetime\<close> that is the fixed-width text
  \<open>iso8601\<close>.
\<close>

theorem timefmt_has_no_effect:
  assumes "hostname w1 = hostname w2" and "clock w1 = clock w2" and "ticks w1 = ticks w2"
    and "streams w1 (arg_or f sys_stderr) = streams w2 (arg_or f sys_stderr)"
    and "Logger_init c tf1 fl f w1 = Inr (a1, v1)"
    and "Logger_init c tf2 fl f w2 = Inr (a2, v2)"
  shows "Logger_init c tf1 fl f w1 = Logger_init c tf2 fl f w1
     \<and> set_options c tf1 w1 = set_options c tf2 w1
     \<and> deref v1 a1 = deref v2 a2
     \<and> stream_after (arg_or f sys_stderr) (run_calls (method_call a1) cs v1)
         = stream_after (arg_or f sys_stderr) (run_calls (method_call a2) cs v2)
     \<and> (writable (streams w1 (arg_or f sys_stderr)) \<longrightarrow>
          (\<exists>rec. emits (method_call a1 k) v1 (arg_or f sys_stderr) rec
             \<and> dict_get rec (py ''timestamp'') = Some (Str (isoformat (clock w1 (ticks w1))))))
     \<and> (valid_datetime (clock w1 (ticks w1)) \<longrightarrow>
          isoformat (clock w1 (ticks w1)) = iso8601 (clock w1 (ticks w1)))"
proof -
  from assms(5) obtain h where h: "hostname w1 = Some h" and a1: "a1 = length (objects w1)"
    and v1: "v1 = w1\<lparr>objects := objects w1 @
             [\<lparr>host = h, component = arg_or c (py ''root''), flush = arg_or fl False,
               file = arg_or f sys_stderr\<rparr>]\<rparr>"
    by (rule Logger_init_returns)
  let ?obj = "\<lparr>host = h, component = arg_or c (py ''root''), flush = arg_or fl False,
               file = arg_or f sys_stderr\<rparr>"
  from assms(6) obtain h' where h': "hostname w2 = Some h'" and a2: "a2 = length (objects w2)"
    and v2': "v2 = w2\<lparr>objects := objects w2 @
             [\<lparr>host = h', component = arg_or c (py ''root''), flush = arg_or fl False,
               file = arg_or f sys_stderr\<rparr>]\<rparr>"
    by (rule Logger_init_returns)
  from h h' assms(1) have "h' = h" by simp
  with v2' have v2: "v2 = w2\<lparr>objects := objects w2 @ [?obj]\<rparr>" by simp
  have d1: "deref v1 a1 = Some ?obj"
    by (simp add: a1 v1 deref_def)
  have d2: "deref v2 a2 = Some ?obj"
    by (simp add: a2 v2 deref_def)
  have sink: "file ?obj = arg_or f sys_stderr"
    by simp
  have "stream_after (file ?obj) (run_calls (method_call a1) cs v1)
      = stream_after (file ?obj) (run_calls (method_call a2) cs v2)"
    using d1 d2
  proof (rule run_method_calls_same_output)
    show "clock v1 = clock v2" and "ticks v1 = ticks v2"
      using assms(2,3) by (simp_all add: v1 v2)
    show "streams v1 (file ?obj) = streams v2 (file ?obj)"
      using assms(4) by (simp add: v1 v2)
  qed
  then have same: "stream_after (arg_or f sys_stderr) (run_calls (method_call a1) cs v1)
         = stream_after (arg_or f sys_stderr) (run_calls (method_call a2) cs v2)"
    by (simp only: sink)
  have stamp: "\<exists>rec. emits (method_call a1 k) v1 (arg_or f sys_stderr) rec
             \<and> dict_get rec (py ''timestamp'') = Some (Str (isoformat (clock w1 (ticks w1))))"
    if "writable (streams w1 (arg_or f sys_stderr))"
  proof -
    have "writable (streams v1 (file ?obj))"
      using that by (simp add: v1)
    with d1 have "emits (method_call a1 k) v1 (file ?obj)
        (injected ?obj (clock v1 (ticks v1)) (built_msg ?obj k))"
      by (rule method_call_emits)
    moreover have "clock v1 (ticks v1) = clock w1 (ticks w1)"
      by (simp add: v1)
    ultimately show ?thesis
      using injected_timestamp [of ?obj "clock w1 (ticks w1)" "built_msg ?obj k"]
      by (auto simp only: sink)
  qed
  from d1 d2 same stamp Logger_init_timefmt set_options_timefmt isoformat_iso8601 show ?thesis
    by simp
qed

theorem timefmt_has_no_effect_witness:
  "hostname example_env = hostname example_world
   \<and> clock example_env = clock example_world
   \<and> ticks example_env = ticks example_world
   \<and> streams example_env (arg_or None sys_stderr) = streams example_world (arg_or None sys_stderr)
   \<and> Logger_init (Some (py ''fsck'')) (Some (py ''%c'')) None None example_env
       = Inr (0, example_env\<lparr>objects :=
           [\<lparr>host = py ''box'', component = py ''fsck'', flush = False, file = sys_stderr\<rparr>]\<rparr>)
   \<and> Logger_init (Some (py ''fsck'')) (Some (py ''%Y-%m-%d'')) None None example_world
       = Inr (1, example_world\<lparr>objects := [example_logger,
            \<lparr>host = py ''box'', component = py ''fsck'', flush = False, file = sys_stderr\<rparr>]\<rparr>)
   \<and> writable (streams example_env (arg_or None sys_stderr))
   \<and> valid_datetime (clock example_env (ticks example_env))
   \<and> iso8601 (clock example_env (ticks example_env)) = py ''2026-11-04T09:05:07''
   \<and> stream_after sys_stderr
        (run_calls (method_call 0) [CallInfo (py ''started''), CallRead [10] (py ''/dev/sda1'')]
           (example_env\<lparr>objects :=
             [\<lparr>host = py ''box'', component = py ''fsck'', flush = False, file = sys_stderr\<rparr>]\<rparr>))
       = stream_after sys_stderr
        (run_calls (method_call 1) [CallInfo (py ''started''), CallRead [10] (py ''/dev/sda1'')]
           (example_world\<lparr>objects := [example_logger,
             \<lparr>host = py ''box'', component = py ''fsck'', flush = False, file = sys_stderr\<rparr>]\<rparr>))
   \<and> (\<exists>rec. emits (method_call 0 (CallInfo (py ''started'')))
          (example_env\<lparr>objects :=
             [\<lparr>host = py ''box'', component = py ''fsck'', flush = False, file = sys_stderr\<rparr>]\<rparr>)
          sys_stderr rec
        \<and> dict_get rec (py ''timestamp'') = Some (Str (py ''2026-11-04T09:05:07'')))"
proof -
  let ?obj = "\<lparr>host = py ''box'', component = py ''fsck'', flush = False, file = sys_stderr\<rparr>"
  let ?v1 = "example_env\<lparr>objects := [?obj]\<rparr>"
  let ?v2 = "example_world\<lparr>objects := [example_logger, ?obj]\<rparr>"
  have e: "hostname example_env = hostname example_world" "clock example_env = clock example_world"
    "ticks example_env = ticks example_world"
    "streams example_env (arg_or None sys_stderr) = streams example_world (arg_or None sys_stderr)"
    by (simp_all add: example_defs)
  have i1: "Logger_init (Some (py ''fsck'')) (Some (py ''%c'')) None None example_env = Inr (0, ?v1)"
    by (simp add: Logger_init_def socket_gethostname_def arg_or_def example_defs)
  have i2: "Logger_init (Some (py ''fsck'')) (Some (py ''%Y-%m-%d'')) None None example_world
      = Inr (1, ?v2)"
    by (simp add: Logger_init_def socket_gethostname_def arg_or_def example_defs)
  have wr: "writable (streams example_env (arg_or None sys_stderr))"
    by (simp add: writable_def arg_or_def example_defs)
  have now: "isoformat (clock example_env (ticks example_env)) = py ''2026-11-04T09:05:07''"
    by (simp add: isoformat_def fmt_d_def digits.simps example_defs py_def)
  have sink: "arg_or None sys_stderr = sys_stderr"
    by (simp add: arg_or_def)
  note inst = timefmt_has_no_effect [OF e i1 i2,
      of "[CallInfo (py ''started''), CallRead [10] (py ''/dev/sda1'')]" "CallInfo (py ''started'')"]
  from inst have same: "stream_after sys_stderr
        (run_calls (method_call 0) [CallInfo (py ''started''), CallRead [10] (py ''/dev/sda1'')] ?v1)
       = stream_after sys_stderr
        (run_calls (method_call 1) [CallInfo (py ''started''), CallRead [10] (py ''/dev/sda1'')] ?v2)"
    by (simp only: sink)
  have valid: "valid_datetime (clock example_env (ticks example_env))"
    by (simp add: valid_datetime_def example_defs)
  with inst now have iso: "iso8601 (clock example_env (ticks example_env)) = py ''2026-11-04T09:05:07''"
    by simp
  from inst wr have "\<exists>rec. emits (method_call 0 (CallInfo (py ''started''))) ?v1 sys_stderr rec
      \<and> dict_get rec (py ''timestamp'') = Some (Str (py ''2026-11-04T09:05:07''))"
    by (simp only: sink now)
  with e i1 i2 wr same valid iso show ?thesis by blast
qed

text \<open>
  Claim C10: for every emission operation and all argument strings, with newlines and other
  control characters in them, what one call writes to the sink is exactly one line: the
  serialization followed by one line end, where the serialization consists of printable
  ASCII characters only (from space to tilde) and so holds no newline; no other stream
  changes.
\<close>

theorem one_line_per_call:
  assumes "deref w self = Some obj" and "writable (streams w (file obj))"
  shows "\<exists>line. appends (method_call self c) w (file obj) (line @ [10])
           \<and> printable line \<and> 10 \<notin> set line
           \<and> (\<forall>w' f. method_call self c w = Inr w' \<and> f \<noteq> file obj \<longrightarrow> streams w' f = streams w f)
           \<and> (self = module_logger w \<longrightarrow>
                (\<exists>line'. appends (module_call c) w (file obj) (line' @ [10])
                   \<and> printable line' \<and> 10 \<notin> set line'))"
proof -
  let ?line = "\<lambda>k. json_dumps (injected obj (clock w (ticks w)) (built_msg obj k))"
  have ok: "printable (?line k) \<and> 10 \<notin> set (?line k)" for k
    using json_dumps_printable printable_no_newline by blast
  have direct: "appends (method_call self c) w (file obj) (?line c @ [10])"
    using method_call_emits [OF assms, of c] by (simp add: emits_def)
  have others: "\<forall>w' f. method_call self c w = Inr w' \<and> f \<noteq> file obj \<longrightarrow> streams w' f = streams w f"
    by (simp add: method_call_ok [OF assms] after_print_def)
  have module: "appends (module_call c) w (file obj) (?line (delegated c) @ [10])"
    if "self = module_logger w"
    using that assms module_call_emits [of w obj c] by (simp add: emits_def)
  from direct others module ok show ?thesis by blast
qed

theorem one_line_per_call_witness:
  "deref example_world 0 = Some example_logger
   \<and> writable (streams example_world (file example_logger))
   \<and> 0 = module_logger example_world
   \<and> (\<exists>line. appends (Logger_log_read 0 [97, 10, 98, 13, 0, 34] [10, 10]) example_world sys_stderr
          (line @ [10])
        \<and> printable line \<and> 10 \<notin> set line)
   \<and> (\<exists>line. appends (log_read [97, 10, 98, 13, 0, 34] [10, 10]) example_world sys_stderr
          (line @ [10])
        \<and> printable line \<and> 10 \<notin> set line)
   \<and> (\<exists>w'. Logger_log_read 0 [97, 10, 98, 13, 0, 34] [10, 10] example_world = Inr w'
        \<and> sys_stdout \<noteq> file example_logger
        \<and> streams w' sys_stdout = streams example_world sys_stdout)
   \<and> py_encode_basestring_ascii [97, 10, 98, 13, 0, 34]
       = [34, 97, 92, 110, 98, 92, 114, 92, 117, 48, 48, 48, 48, 92, 34, 34]"
proof -
  obtain line where line: "appends (Logger_log_read 0 [97, 10, 98, 13, 0, 34] [10, 10])
        example_world sys_stderr (line @ [10])" "printable line" "10 \<notin> set line"
    and others: "\<forall>w' f. Logger_log_read 0 [97, 10, 98, 13, 0, 34] [10, 10] example_world = Inr w'
        \<and> f \<noteq> sys_stderr \<longrightarrow> streams w' f = streams example_world f"
    and module: "\<exists>line'. appends (log_read [97, 10, 98, 13, 0, 34] [10, 10]) example_world sys_stderr
        (line' @ [10]) \<and> printable line' \<and> 10 \<notin> set line'"
    using one_line_per_call [OF example_deref example_writable,
        of "CallRead [97, 10, 98, 13, 0, 34] [10, 10]"]
    by (simp add: example_file example_module_logger) blast
  from line(1) obtain w' where w': "Logger_log_read 0 [97, 10, 98, 13, 0, 34] [10, 10] example_world = Inr w'"
    by (auto simp: appends_def split: sum.splits)
  with others have "streams w' sys_stdout = streams example_world sys_stdout"
    by simp
  with w' have out: "\<exists>w'. Logger_log_read 0 [97, 10, 98, 13, 0, 34] [10, 10] example_world = Inr w'
        \<and> sys_stdout \<noteq> file example_logger
        \<and> streams w' sys_stdout = streams example_world sys_stdout"
    by (simp add: example_file)
  have enc: "py_encode_basestring_ascii [97, 10, 98, 13, 0, 34]
       = [34, 97, 92, 110, 98, 92, 114, 92, 117, 48, 48, 48, 48, 92, 34, 34]"
    by (simp add: json_defs)
  from line module out enc example_deref example_writable example_module_logger show ?thesis
    by (intro conjI) (simp, simp, simp, blast, blast, blast, blast)
qed

end
